theory Spec2Isabelle
  imports Main
begin

section \<open>Text primitives\<close>

text \<open>
  Message texts and slot labels are JavaScript strings.  They are modelled as
  \<^typ>\<open>string\<close>; a character stands for the code unit of the same number (the
  Latin-1 range).  The functions below are the few string methods and regular
  expression classes the bot uses: \<open>toLowerCase\<close>, \<open>trim\<close>, \<open>includes\<close>,
  \<open>\d\<close>, \<open>\s\<close>, \<open>\w\<close>, \<open>\b\<close> and \<open>parseInt\<close> on a run of digits.
\<close>

definition code :: "char \<Rightarrow> nat" where
  "code c = of_char c"

definition isDigit :: "char \<Rightarrow> bool" where
  "isDigit c = (48 \<le> code c \<and> code c \<le> 57)"

definition isSpace :: "char \<Rightarrow> bool" where
  "isSpace c = (code c \<in> {9, 10, 11, 12, 13, 32, 160})"

definition isWordChar :: "char \<Rightarrow> bool" where
  "isWordChar c =
     (isDigit c \<or> (65 \<le> code c \<and> code c \<le> 90) \<or> (97 \<le> code c \<and> code c \<le> 122) \<or> code c = 95)"

definition lowerChar :: "char \<Rightarrow> char" where
  "lowerChar c =
     (if (65 \<le> code c \<and> code c \<le> 90) \<or> (192 \<le> code c \<and> code c \<le> 222 \<and> code c \<noteq> 215)
      then char_of (code c + 32) else c)"

definition toLowerCase :: "string \<Rightarrow> string" where
  "toLowerCase s = map lowerChar s"

definition trim :: "string \<Rightarrow> string" where
  "trim s = rev (dropWhile isSpace (rev (dropWhile isSpace s)))"

definition removeSpaces :: "string \<Rightarrow> string" where
  "removeSpaces s = filter (\<lambda>c. \<not> isSpace c) s"

fun startsWith :: "string \<Rightarrow> string \<Rightarrow> bool" where
  "startsWith s [] = True"
| "startsWith [] (w # ws) = False"
| "startsWith (c # cs) (w # ws) = (c = w \<and> startsWith cs ws)"

fun includesStr :: "string \<Rightarrow> string \<Rightarrow> bool" where
  "includesStr [] w = (w = [])"
| "includesStr (c # cs) w = (startsWith (c # cs) w \<or> includesStr cs w)"

text \<open>A number of one or two digits, \<open>\d{1,2}\<close> as a whole string.\<close>

definition isBareNumber :: "string \<Rightarrow> bool" where
  "isBareNumber s = ((length s = 1 \<or> length s = 2) \<and> list_all isDigit s)"

definition digitVal :: "char \<Rightarrow> nat" where
  "digitVal c = code c - 48"

definition parseDigits :: "string \<Rightarrow> nat" where
  "parseDigits ds = foldl (\<lambda>n c. 10 * n + digitVal c) 0 ds"

section \<open>Data model (types.ts)\<close>

text \<open>
  A slot carries its label and the two ISO-8601 timestamps.  A timestamp is
  modelled by the instant it denotes, in milliseconds since the epoch:
  \<open>Date.prototype.toISOString\<close> is one-to-one on valid dates, so two
  timestamps are the same string exactly when they are the same instant.
\<close>

record Slot =
  label :: string
  startISO :: int
  endISO :: int

datatype CollectStep = CollectName | CollectAddress | CollectPhone | CollectDone

text \<open>
  The conversation context.  Every field is optional in the source
  (\<open>undefined\<close> is \<open>None\<close>).  \<open>attemptCount\<close> is a JavaScript number that only
  ever holds small integers; it is modelled as an integer.
\<close>

record Context =
  slots :: "Slot list option"
  offeredDays :: "string list option"
  requestedDay :: "string option"
  attemptCount :: "int option"
  lastIntent :: "string option"
  collectStep :: "CollectStep option"
  address :: "string option"
  phone :: "string option"

section \<open>Context tracker (context.ts)\<close>

definition weekdayNames :: "string list" where
  "weekdayNames =
     [''sunday'', ''monday'', ''tuesday'', ''wednesday'', ''thursday'', ''friday'', ''saturday'']"

definition extractDayName :: "string \<Rightarrow> string" where
  "extractDayName slotLabel =
     (case filter (includesStr (toLowerCase slotLabel)) weekdayNames of
        [] \<Rightarrow> []
      | day # _ \<Rightarrow> day)"

definition getDaysFromSlots :: "Slot list \<Rightarrow> string list" where
  "getDaysFromSlots ss = filter (\<lambda>d. d \<noteq> []) (map (\<lambda>s. extractDayName (label s)) ss)"

text \<open>\<open>[...new Set(xs)]\<close>: the first occurrence of every element, in order.\<close>

fun uniqueInOrder :: "'a list \<Rightarrow> 'a list \<Rightarrow> 'a list" where
  "uniqueInOrder seen [] = []"
| "uniqueInOrder seen (x # xs) =
     (if x \<in> set seen then uniqueInOrder seen xs else x # uniqueInOrder (x # seen) xs)"

text \<open>\<open>context.attemptCount || 0\<close>: \<open>undefined\<close> and \<open>0\<close> both give \<open>0\<close>.\<close>

definition attemptsOrZero :: "Context \<Rightarrow> int" where
  "attemptsOrZero ctx = (case attemptCount ctx of None \<Rightarrow> 0 | Some n \<Rightarrow> n)"

definition initializeContext :: "Context \<Rightarrow> Context" where
  "initializeContext ctx =
     ctx\<lparr> offeredDays := Some (case offeredDays ctx of None \<Rightarrow> [] | Some ds \<Rightarrow> ds),
          attemptCount := Some (attemptsOrZero ctx),
          lastIntent := Some (case lastIntent ctx of None \<Rightarrow> ''unknown''
                                | Some i \<Rightarrow> if i = [] then ''unknown'' else i) \<rparr>"

definition emptyContext :: Context where
  "emptyContext =
     \<lparr> slots = None, offeredDays = None, requestedDay = None, attemptCount = None,
       lastIntent = None, collectStep = None, address = None, phone = None \<rparr>"

definition trackOfferedSlots :: "Context \<Rightarrow> Slot list \<Rightarrow> bool \<Rightarrow> Context" where
  "trackOfferedSlots ctx ss isSuccessfulMatch =
     (let newDays = getDaysFromSlots ss;
          existingDays = (case offeredDays ctx of None \<Rightarrow> [] | Some ds \<Rightarrow> ds);
          allDays = uniqueInOrder [] (existingDays @ newDays);
          newAttemptCount = (if isSuccessfulMatch then 0 else attemptsOrZero ctx + 1)
      in ctx\<lparr> slots := Some ss, offeredDays := Some allDays,
               attemptCount := Some newAttemptCount \<rparr>)"

definition trackRequestedDay :: "Context \<Rightarrow> string \<Rightarrow> Context" where
  "trackRequestedDay ctx day = ctx\<lparr> requestedDay := Some day \<rparr>"

definition trackIntent :: "Context \<Rightarrow> string \<Rightarrow> Context" where
  "trackIntent ctx intent = ctx\<lparr> lastIntent := Some intent \<rparr>"

definition shouldTriggerGracefulDegradation :: "Context \<Rightarrow> bool" where
  "shouldTriggerGracefulDegradation ctx = (attemptsOrZero ctx \<ge> 3)"

definition shouldAskOpenEnded :: "Context \<Rightarrow> bool" where
  "shouldAskOpenEnded ctx = (attemptsOrZero ctx \<ge> 2)"

definition resetAttemptCount :: "Context \<Rightarrow> Context" where
  "resetAttemptCount ctx = ctx\<lparr> attemptCount := Some 0 \<rparr>"

definition getExcludedDays :: "Context \<Rightarrow> string list" where
  "getExcludedDays ctx = (case offeredDays ctx of None \<Rightarrow> [] | Some ds \<Rightarrow> ds)"

section \<open>Lead store (supabase.ts)\<close>

datatype LeadStatus = Active | Booked | Dead | Needs_followup

text \<open>
  A row of \<open>bot_leads\<close>.  A nullable column is an option; the timestamp
  columns hold instants.
\<close>

record Lead =
  psid :: string
  status :: LeadStatus
  bot_enabled :: bool
  booked_event_id :: "string option"
  booked_slot_label :: "string option"
  booked_slot_start :: "int option"
  booked_slot_end :: "int option"
  pending_slot_label :: "string option"
  pending_slot_start :: "int option"
  pending_slot_end :: "int option"
  pending_claimed_at :: "int option"
  customer_name :: "string option"
  customer_address :: "string option"
  customer_phone :: "string option"
  last_seen_at :: int

text \<open>
  The table maps a lead id (the primary key) to its row.  \<open>online\<close> says
  whether the REST endpoint answers a request with a 2xx status; when it does
  not, the request changes nothing and the repository method throws.  A
  \<open>PATCH\<close> with a filter is one \<open>UPDATE ... WHERE ... RETURNING *\<close>, applied
  to the row as a whole.
\<close>

record Repo =
  leads :: "string \<rightharpoonup> Lead"
  online :: bool

datatype RepoError = HttpFailure | LeadNotFound | NoPendingSlotToFinalize

text \<open>JavaScript truthiness of a nullable string: \<open>null\<close> and \<open>""\<close> are falsy.\<close>

definition falsy :: "string option \<Rightarrow> bool" where
  "falsy v = (case v of None \<Rightarrow> True | Some s \<Rightarrow> s = [])"

definition getLeadById :: "Repo \<Rightarrow> string \<Rightarrow> RepoError + Lead" where
  "getLeadById repo leadId =
     (if \<not> online repo then Inl HttpFailure
      else case leads repo leadId of
             None \<Rightarrow> Inl LeadNotFound
           | Some l \<Rightarrow> Inr l)"

text \<open>
  \<open>PATCH bot_leads?id=eq.leadId\<close> with a filter on the row and an update of
  it; the answer is the list of updated rows (none or one).
\<close>

definition patchLead ::
  "Repo \<Rightarrow> string \<Rightarrow> (Lead \<Rightarrow> bool) \<Rightarrow> (Lead \<Rightarrow> Lead) \<Rightarrow> RepoError + (Lead option \<times> Repo)" where
  "patchLead repo leadId cond upd =
     (if \<not> online repo then Inl HttpFailure
      else case leads repo leadId of
             None \<Rightarrow> Inr (None, repo)
           | Some l \<Rightarrow>
               if cond l
               then Inr (Some (upd l), repo\<lparr> leads := (leads repo)(leadId \<mapsto> upd l) \<rparr>)
               else Inr (None, repo))"

definition setLeadStatus :: "Repo \<Rightarrow> string \<Rightarrow> LeadStatus \<Rightarrow> RepoError + Repo" where
  "setLeadStatus repo leadId st =
     map_sum id snd (patchLead repo leadId (\<lambda>l. True) (\<lambda>l. l\<lparr> status := st \<rparr>))"

definition disableBot :: "Repo \<Rightarrow> string \<Rightarrow> RepoError + Repo" where
  "disableBot repo leadId =
     map_sum id snd (patchLead repo leadId (\<lambda>l. True) (\<lambda>l. l\<lparr> bot_enabled := False \<rparr>))"

definition enableBot :: "Repo \<Rightarrow> string \<Rightarrow> RepoError + Repo" where
  "enableBot repo leadId =
     map_sum id snd (patchLead repo leadId (\<lambda>l. True) (\<lambda>l. l\<lparr> bot_enabled := True \<rparr>))"

text \<open>
  \<open>tryClaimPendingSlot\<close>: the filter is \<open>id=eq.leadId&booked_event_id=is.null\<close>;
  \<open>now\<close> is the \<open>new Date()\<close> written to \<open>pending_claimed_at\<close>.  The result is
  the first updated row, or \<open>null\<close> when no row was updated.
\<close>

definition tryClaimPendingSlot ::
  "Repo \<Rightarrow> string \<Rightarrow> Slot \<Rightarrow> int \<Rightarrow> RepoError + (Lead option \<times> Repo)" where
  "tryClaimPendingSlot repo leadId slot now =
     patchLead repo leadId (\<lambda>l. booked_event_id l = None)
       (\<lambda>l. l\<lparr> pending_slot_label := Some (label slot),
                pending_slot_start := Some (startISO slot),
                pending_slot_end := Some (endISO slot),
                pending_claimed_at := Some now,
                status := Active \<rparr>)"

record PendingSlot =
  pendingLabel :: string
  pendingStart :: int
  pendingEnd :: int
  claimedAt :: int

text \<open>
  \<open>getPendingSlot\<close>.  \<open>ageMinutes\<close> is the difference of the two instants
  divided by 60000; it exceeds 15 exactly when the difference exceeds
  \<open>15 * 60000\<close> milliseconds, which is the comparison written here.
\<close>

definition getPendingSlot :: "Repo \<Rightarrow> string \<Rightarrow> int \<Rightarrow> RepoError + PendingSlot option" where
  "getPendingSlot repo leadId now =
     (case getLeadById repo leadId of
        Inl e \<Rightarrow> Inl e
      | Inr lead \<Rightarrow>
          (case (pending_slot_label lead, pending_slot_start lead, pending_slot_end lead) of
             (Some l, Some s, Some e) \<Rightarrow>
               if l = [] then Inr None
               else (case pending_claimed_at lead of
                       Some t \<Rightarrow>
                         if now - t > 15 * (1000 * 60) then Inr None
                         else Inr (Some \<lparr> pendingLabel = l, pendingStart = s, pendingEnd = e,
                                          claimedAt = t \<rparr>)
                     | None \<Rightarrow>
                         Inr (Some \<lparr> pendingLabel = l, pendingStart = s, pendingEnd = e,
                                     claimedAt = now \<rparr>))
           | _ \<Rightarrow> Inr None))"

definition finalizeBookingWithDetails ::
  "Repo \<Rightarrow> string \<Rightarrow> string \<Rightarrow> string \<Rightarrow> string \<Rightarrow> RepoError + Repo" where
  "finalizeBookingWithDetails repo leadId eventId addr ph =
     (case getLeadById repo leadId of
        Inl e \<Rightarrow> Inl e
      | Inr lead \<Rightarrow>
          if falsy (pending_slot_label lead) \<or> pending_slot_start lead = None
             \<or> pending_slot_end lead = None
          then Inl NoPendingSlotToFinalize
          else map_sum id snd
                 (patchLead repo leadId (\<lambda>l. True)
                    (\<lambda>l. l\<lparr> status := Booked,
                             booked_event_id := Some eventId,
                             booked_slot_label := pending_slot_label lead,
                             booked_slot_start := pending_slot_start lead,
                             booked_slot_end := pending_slot_end lead,
                             customer_name := None,
                             customer_address := Some addr,
                             customer_phone := Some ph,
                             pending_slot_label := None,
                             pending_slot_start := None,
                             pending_slot_end := None,
                             pending_claimed_at := None \<rparr>)))"

definition releasePendingClaim :: "Repo \<Rightarrow> string \<Rightarrow> RepoError + Repo" where
  "releasePendingClaim repo leadId =
     map_sum id snd
       (patchLead repo leadId (\<lambda>l. True)
          (\<lambda>l. l\<lparr> status := Active,
                   pending_slot_label := None,
                   pending_slot_start := None,
                   pending_slot_end := None,
                   pending_claimed_at := None \<rparr>))"

definition releaseBookingClaim :: "Repo \<Rightarrow> string \<Rightarrow> RepoError + Repo" where
  "releaseBookingClaim repo leadId =
     map_sum id snd
       (patchLead repo leadId (\<lambda>l. True)
          (\<lambda>l. l\<lparr> status := Active,
                   booked_slot_label := None,
                   booked_slot_start := None,
                   booked_slot_end := None,
                   booked_event_id := None \<rparr>))"

text \<open>A lead with no booking and no claim, and two slots of one Saturday.\<close>

definition freshLead :: Lead where
  "freshLead =
     \<lparr> psid = ''psid-1'', status = Active, bot_enabled = True,
       booked_event_id = None, booked_slot_label = None, booked_slot_start = None,
       booked_slot_end = None, pending_slot_label = None, pending_slot_start = None,
       pending_slot_end = None, pending_claimed_at = None, customer_name = None,
       customer_address = None, customer_phone = None, last_seen_at = 1793683080000 \<rparr>"

definition repoOf :: "Lead \<Rightarrow> Repo" where
  "repoOf l = \<lparr> leads = [''lead-1'' \<mapsto> l], online = True \<rparr>"

definition saturdayNoon :: Slot where
  "saturdayNoon = \<lparr> label = ''Saturday at 12:00 PM'', startISO = 1794052800000,
                    endISO = 1794063600000 \<rparr>"

definition saturdayThree :: Slot where
  "saturdayThree = \<lparr> label = ''Saturday at 3:00 PM'', startISO = 1794063600000,
                     endISO = 1794074400000 \<rparr>"

section \<open>Dates\<close>

text \<open>
  A \<open>Date\<close> is its time value, the milliseconds since the epoch, as an
  integer (all dates here are valid and far inside the range of \<open>Date\<close>).
  \<open>makeDay\<close> and \<open>dateUTC\<close> are \<open>MakeDay\<close> and \<open>Date.UTC\<close> of ECMAScript: the
  month index may run over (12 is January of the next year) and so may the
  day of the month.
\<close>

definition msPerDay :: int where
  "msPerDay = 24 * 60 * 60 * 1000"

definition daysFromCivil :: "int \<Rightarrow> int \<Rightarrow> int \<Rightarrow> int" where
  "daysFromCivil y m d =
     (let y' = (if m \<le> 2 then y - 1 else y);
          era = y' div 400;
          yoe = y' - era * 400;
          mp = (m + 9) mod 12;
          doy = (153 * mp + 2) div 5 + d - 1;
          doe = yoe * 365 + yoe div 4 - yoe div 100 + doy
      in era * 146097 + doe - 719468)"

definition makeDay :: "int \<Rightarrow> int \<Rightarrow> int \<Rightarrow> int" where
  "makeDay year monthIndex date =
     daysFromCivil (year + monthIndex div 12) (monthIndex mod 12 + 1) 1 + date - 1"

definition dateUTC :: "int \<Rightarrow> int \<Rightarrow> int \<Rightarrow> int \<Rightarrow> int \<Rightarrow> int \<Rightarrow> int" where
  "dateUTC year monthIndex date h mi sec =
     makeDay (if 0 \<le> year \<and> year \<le> 99 then 1900 + year else year) monthIndex date * msPerDay
       + h * 3600000 + mi * 60000 + sec * 1000"

definition dayNumber :: "int \<Rightarrow> int" where
  "dayNumber t = t div msPerDay"

definition getUTCDay :: "int \<Rightarrow> int" where
  "getUTCDay t = (dayNumber t + 4) mod 7"

text \<open>\<open>d.setUTCDate(d.getUTCDate() + n); d.setUTCHours(12, 0, 0, 0)\<close>.\<close>

definition addDaysAtNoonUTC :: "int \<Rightarrow> int \<Rightarrow> int" where
  "addDaysAtNoonUTC t n = (dayNumber t + n) * msPerDay + 12 * 3600000"

section \<open>The platform: time zone data and the date parser\<close>

text \<open>
  What the runtime supplies and the repository does not contain: the parts
  \<open>Intl.DateTimeFormat\<close> gives for an instant in the calendar's time zone, and
  the parser of \<open>new Date("YYYY-MM-DDTHH:mm:00Z")\<close>.  They are parameters of
  the model.
\<close>

record Platform =
  ymdInTZ :: "int \<Rightarrow> int \<times> int \<times> int"
  hourInTZ :: "int \<Rightarrow> int"
  weekdayInTZ :: "int \<Rightarrow> string"
  hour12InTZ :: "int \<Rightarrow> string"
  minuteInTZ :: "int \<Rightarrow> string"
  dayPeriodInTZ :: "int \<Rightarrow> string"
  parseUTC :: "int \<Rightarrow> int \<Rightarrow> int \<Rightarrow> int \<Rightarrow> int \<Rightarrow> int option"

section \<open>Slot generator (google.ts)\<close>

record BusyBlock =
  busyStart :: int
  busyEnd :: int

datatype GenError = FreeBusyFailed | InvalidTimeValue | CreateEventFailed

text \<open>
  What one run of a generator method observes from outside: the clock at its
  \<open>new Date()\<close>, and the calendar's answer to the free/busy query for a range
  (a failed request throws).
\<close>

record Obs =
  clock :: int
  freeBusy :: "int \<Rightarrow> int \<Rightarrow> GenError + BusyBlock list"

text \<open>Sequencing of steps that may throw: the first error ends the run.\<close>

definition bindE :: "'e + 'a \<Rightarrow> ('a \<Rightarrow> 'e + 'b) \<Rightarrow> 'e + 'b" where
  "bindE r f = (case r of Inl e \<Rightarrow> Inl e | Inr v \<Rightarrow> f v)"

definition slotKey :: "Slot \<Rightarrow> int \<times> int" where
  "slotKey s = (startISO s, endISO s)"

fun dedupeFrom :: "(int \<times> int) list \<Rightarrow> Slot list \<Rightarrow> Slot list" where
  "dedupeFrom seen [] = []"
| "dedupeFrom seen (s # ss) =
     (if slotKey s \<in> set seen then dedupeFrom seen ss
      else s # dedupeFrom (slotKey s # seen) ss)"

definition dedupeSlots :: "Slot list \<Rightarrow> Slot list" where
  "dedupeSlots ss = dedupeFrom [] ss"

definition overlapsDates :: "int \<Rightarrow> int \<Rightarrow> int \<Rightarrow> int \<Rightarrow> bool" where
  "overlapsDates s1 e1 s2 e2 = (s1 < e2 \<and> s2 < e1)"

text \<open>
  \<open>makeDateInTZ\<close>: the wall-clock time is first read as UTC; formatting an
  invalid date throws a \<open>RangeError\<close>.
\<close>

definition makeDateInTZ ::
  "Platform \<Rightarrow> int \<Rightarrow> int \<Rightarrow> int \<Rightarrow> int \<Rightarrow> int \<Rightarrow> GenError + int" where
  "makeDateInTZ P y m d hh mm =
     (case parseUTC P y m d hh mm of
        None \<Rightarrow> Inl InvalidTimeValue
      | Some utcDate \<Rightarrow>
          (let tzHour = hourInTZ P utcDate;
               offsetHours = hh - tzHour
           in Inr (dateUTC y (m - 1) d (hh + offsetHours) mm 0)))"

text \<open>The template of a label: \<open>`${weekday} at ${hour}:${minute} ${dayPeriod}`\<close>.\<close>

definition labelText :: "string \<Rightarrow> string \<Rightarrow> string \<Rightarrow> string \<Rightarrow> string" where
  "labelText weekday hour minute dayPeriod =
     weekday @ '' at '' @ hour @ '':'' @ minute @ '' '' @ dayPeriod"

definition formatSlotLabel :: "Platform \<Rightarrow> int \<Rightarrow> string" where
  "formatSlotLabel P date =
     labelText (weekdayInTZ P date) (hour12InTZ P date) (minuteInTZ P date)
       (dayPeriodInTZ P date)"

text \<open>The two windows of a day, 12-3 PM and 3-6 PM, as (start, end).\<close>

definition dayWindows :: "Platform \<Rightarrow> int \<Rightarrow> int \<Rightarrow> int \<Rightarrow> GenError + (int \<times> int) list" where
  "dayWindows P y m d =
     bindE (makeDateInTZ P y m d 12 0) (\<lambda>s1.
     bindE (makeDateInTZ P y m d 15 0) (\<lambda>e1.
     bindE (makeDateInTZ P y m d 15 0) (\<lambda>s2.
     bindE (makeDateInTZ P y m d 18 0) (\<lambda>e2.
       Inr [(s1, e1), (s2, e2)]))))"

definition isBusyIn :: "BusyBlock list \<Rightarrow> int \<times> int \<Rightarrow> bool" where
  "isBusyIn busy c = list_ex (\<lambda>b. overlapsDates (fst c) (snd c) (busyStart b) (busyEnd b)) busy"

definition slotOf :: "Platform \<Rightarrow> int \<times> int \<Rightarrow> Slot" where
  "slotOf P c = \<lparr> label = formatSlotLabel P (fst c), startISO = fst c, endISO = snd c \<rparr>"

definition generateSlotsForSpecificDate :: "Platform \<Rightarrow> int \<Rightarrow> Obs \<Rightarrow> GenError + Slot list" where
  "generateSlotsForSpecificDate P targetDate ob =
     (case ymdInTZ P targetDate of (y, m, d) \<Rightarrow>
        bindE (makeDateInTZ P y m d 0 0) (\<lambda>dayStart.
        bindE (makeDateInTZ P y m d 23 59) (\<lambda>dayEnd.
        bindE (freeBusy ob dayStart dayEnd) (\<lambda>busy.
        bindE (dayWindows P y m d) (\<lambda>windows.
          (let now = clock ob;
               candidates = filter (\<lambda>c. snd c > now) windows
           in Inr (map (slotOf P) (filter (\<lambda>c. \<not> isBusyIn busy c) candidates))))))))"

text \<open>
  The loop over the candidates of one day in \<open>generateTwoSlotsFixedWindows\<close>,
  with its \<open>break\<close>.
\<close>

fun addCandidates ::
  "Platform \<Rightarrow> BusyBlock list \<Rightarrow> nat \<Rightarrow> Slot list \<Rightarrow> (int \<times> int) list \<Rightarrow> Slot list" where
  "addCandidates P busy maxSlots out [] = out"
| "addCandidates P busy maxSlots out (c # cs) =
     (let isBusy = isBusyIn busy c;
          slot = slotOf P c;
          isDuplicate = list_ex (\<lambda>s. startISO s = startISO slot \<and> endISO s = endISO slot) out;
          out' = (if \<not> isBusy \<and> \<not> isDuplicate \<and> length out < maxSlots
                  then out @ [slot] else out)
      in if length out' \<ge> maxSlots then out'
         else addCandidates P busy maxSlots out' cs)"

text \<open>
  The loop over the days: \<open>i\<close> is the loop variable and the next argument the
  number of iterations left.
\<close>

fun dayLoop ::
  "Platform \<Rightarrow> BusyBlock list \<Rightarrow> string list \<Rightarrow> nat \<Rightarrow> int \<Rightarrow> int \<Rightarrow> nat \<Rightarrow> nat \<Rightarrow> Slot list
     \<Rightarrow> GenError + Slot list" where
  "dayLoop P busy excludeDays maxSlots now rangeStart i 0 out = Inr out"
| "dayLoop P busy excludeDays maxSlots now rangeStart i (Suc k) out =
     (let day = rangeStart + int i * 24 * 60 * 60 * 1000;
          dayName = toLowerCase (weekdayInTZ P day)
      in case ymdInTZ P day of (y, m, d) \<Rightarrow>
         if dayName \<in> set excludeDays
         then dayLoop P busy excludeDays maxSlots now rangeStart (Suc i) k out
         else bindE (dayWindows P y m d) (\<lambda>windows.
                (let candidates = filter (\<lambda>c. snd c > now) windows;
                     out' = addCandidates P busy maxSlots out candidates
                 in if length out' \<ge> maxSlots then Inr out'
                    else dayLoop P busy excludeDays maxSlots now rangeStart (Suc i) k out')))"

definition generateTwoSlotsFixedWindows ::
  "Platform \<Rightarrow> nat \<Rightarrow> string list \<Rightarrow> nat \<Rightarrow> int \<Rightarrow> Obs \<Rightarrow> GenError + Slot list" where
  "generateTwoSlotsFixedWindows P days excludeDays maxSlots startOffset ob =
     (let now = clock ob in
      case ymdInTZ P now of (y, m, d) \<Rightarrow>
        bindE (makeDateInTZ P y m (d + startOffset) 0 0) (\<lambda>rangeStart.
          (let rangeEnd = rangeStart + int days * 24 * 60 * 60 * 1000 in
           bindE (freeBusy ob rangeStart rangeEnd) (\<lambda>busy.
           bindE (dayLoop P busy excludeDays maxSlots now rangeStart 0 days []) (\<lambda>out.
             Inr (dedupeSlots out))))))"

text \<open>
  The forward search of \<open>generateTwoSlots\<close> for a second slot: day \<open>i\<close> after
  the forced date, \<open>i = 1, ..., 14\<close>; the run for day \<open>i\<close> observes \<open>obs i\<close>.
\<close>

fun searchForward ::
  "Platform \<Rightarrow> (nat \<Rightarrow> Obs) \<Rightarrow> int \<Rightarrow> int \<Rightarrow> int \<Rightarrow> nat \<Rightarrow> nat \<Rightarrow> GenError + Slot option" where
  "searchForward P obs y m d i 0 = Inr None"
| "searchForward P obs y m d i (Suc k) =
     (let nextDay = dateUTC y (m - 1) (d + int i) 12 0 0 in
      bindE (generateSlotsForSpecificDate P nextDay (obs i)) (\<lambda>nextSlots.
        case nextSlots of
          [] \<Rightarrow> searchForward P obs y m d (Suc i) k
        | s # _ \<Rightarrow> Inr (Some s)))"

record SearchOptions =
  daysPrimary :: nat
  daysFallback :: nat

text \<open>
  \<open>generateTwoSlots\<close>.  With a forced date, \<open>obs 0\<close> is what the search of that
  date observes; without, \<open>obs 0\<close> and \<open>obs 1\<close> are what the primary and the
  fallback search observe.
\<close>

definition generateTwoSlots ::
  "Platform \<Rightarrow> SearchOptions \<Rightarrow> int option \<Rightarrow> int \<Rightarrow> (nat \<Rightarrow> Obs) \<Rightarrow> GenError + Slot list" where
  "generateTwoSlots P options forcedDate startOffset obs =
     (case forcedDate of
        Some fd \<Rightarrow>
          bindE (generateSlotsForSpecificDate P fd (obs 0)) (\<lambda>dateSlots.
            if length dateSlots \<ge> 2 then Inr (take 2 (dedupeSlots dateSlots))
            else if length dateSlots = 1 then
              (case ymdInTZ P fd of (y, m, d) \<Rightarrow>
                 bindE (searchForward P obs y m d 1 14) (\<lambda>second.
                   Inr (take 2 (dedupeSlots (dateSlots @ (case second of None \<Rightarrow> []
                                                          | Some s \<Rightarrow> [s]))))))
            else Inr (take 2 (dedupeSlots dateSlots)))
      | None \<Rightarrow>
          bindE (generateTwoSlotsFixedWindows P (daysPrimary options) [] 999 startOffset (obs 0))
            (\<lambda>found.
               if length found \<ge> 2 then Inr (take 2 (dedupeSlots found))
               else bindE (generateTwoSlotsFixedWindows P (daysFallback options) [] 999
                             startOffset (obs 1))
                      (\<lambda>found'. Inr (take 2 (dedupeSlots found')))))"

section \<open>Regular expressions\<close>

text \<open>
  A position of a string is the character before it (if any) and the rest of
  the string from it.  \<open>\b\<close> holds at a position when exactly one of the two
  characters around it is a word character.  A search tries the positions
  from left to right, as \<open>RegExp.prototype.exec\<close> does.
\<close>

definition wordBoundary :: "char option \<Rightarrow> string \<Rightarrow> bool" where
  "wordBoundary prev rest =
     ((case prev of None \<Rightarrow> False | Some c \<Rightarrow> isWordChar c)
        \<noteq> (case rest of [] \<Rightarrow> False | c # _ \<Rightarrow> isWordChar c))"

fun firstMatch :: "(char option \<Rightarrow> string \<Rightarrow> 'a option) \<Rightarrow> char option \<Rightarrow> string \<Rightarrow> 'a option" where
  "firstMatch m prev [] = m prev []"
| "firstMatch m prev (c # cs) =
     (case m prev (c # cs) of
        Some r \<Rightarrow> Some r
      | None \<Rightarrow> firstMatch m (Some c) cs)"

definition search :: "(char option \<Rightarrow> string \<Rightarrow> 'a option) \<Rightarrow> string \<Rightarrow> 'a option" where
  "search m s = firstMatch m None s"

text \<open>A literal under the flag \<open>i\<close> (the literals are lower-case ASCII letters).\<close>

definition startsWithCI :: "string \<Rightarrow> string \<Rightarrow> bool" where
  "startsWithCI s w = (length w \<le> length s \<and> map lowerChar (take (length w) s) = w)"

text \<open>
  \<open>\d{1,2}\<close> followed by the rest of a pattern: two digits are tried first,
  then one.  The result is the digits and what the continuation returns.
\<close>

definition oneOrTwoDigits :: "(char \<Rightarrow> string \<Rightarrow> 'a option) \<Rightarrow> string \<Rightarrow> (string \<times> 'a) option" where
  "oneOrTwoDigits k s =
     (case s of
        d1 # d2 # rest \<Rightarrow>
          if isDigit d1 \<and> isDigit d2 \<and> k d2 rest \<noteq> None
          then Some ([d1, d2], the (k d2 rest))
          else if isDigit d1 \<and> k d1 (d2 # rest) \<noteq> None
          then Some ([d1], the (k d1 (d2 # rest)))
          else None
      | [d1] \<Rightarrow> if isDigit d1 \<and> k d1 [] \<noteq> None then Some ([d1], the (k d1 [])) else None
      | [] \<Rightarrow> None)"

text \<open>\<open>/\b(am|pm)\b/i\<close>\<close>

definition amPmAt :: "char option \<Rightarrow> string \<Rightarrow> unit option" where
  "amPmAt prev rest =
     (if wordBoundary prev rest \<and> (startsWithCI rest ''am'' \<or> startsWithCI rest ''pm'')
         \<and> wordBoundary (Some (rest ! 1)) (drop 2 rest)
      then Some () else None)"

text \<open>\<open>/\b\d{1,2}:\d{2}/\<close>\<close>

definition colonTwoDigits :: "char \<Rightarrow> string \<Rightarrow> unit option" where
  "colonTwoDigits prev rest =
     (case rest of
        c # m1 # m2 # _ \<Rightarrow> if c = CHR '':'' \<and> isDigit m1 \<and> isDigit m2 then Some () else None
      | _ \<Rightarrow> None)"

definition clockTimeAt :: "char option \<Rightarrow> string \<Rightarrow> unit option" where
  "clockTimeAt prev rest =
     (if wordBoundary prev rest then map_option snd (oneOrTwoDigits colonTwoDigits rest)
      else None)"

text \<open>\<open>/\bat\s+\d{1,2}\b/i\<close>\<close>

definition boundaryAfter :: "char \<Rightarrow> string \<Rightarrow> unit option" where
  "boundaryAfter prev rest = (if wordBoundary (Some prev) rest then Some () else None)"

definition atHourAt :: "char option \<Rightarrow> string \<Rightarrow> unit option" where
  "atHourAt prev rest =
     (if wordBoundary prev rest \<and> startsWithCI rest ''at''
         \<and> drop 2 rest \<noteq> [] \<and> isSpace (rest ! 2)
      then map_option snd (oneOrTwoDigits boundaryAfter (dropWhile isSpace (drop 2 rest)))
      else None)"

text \<open>\<open>/\b(?:the\s+)?(\d{1,2})(st|nd|rd|th)\b/\<close>; the result is group 1.\<close>

definition ordinalSuffix :: "char \<Rightarrow> string \<Rightarrow> unit option" where
  "ordinalSuffix prev rest =
     (if (startsWith rest ''st'' \<or> startsWith rest ''nd'' \<or> startsWith rest ''rd''
            \<or> startsWith rest ''th'')
         \<and> wordBoundary (Some (rest ! 1)) (drop 2 rest)
      then Some () else None)"

definition ordinalAt :: "char option \<Rightarrow> string \<Rightarrow> string option" where
  "ordinalAt prev rest =
     (if \<not> wordBoundary prev rest then None
      else if startsWith rest ''the'' \<and> drop 3 rest \<noteq> [] \<and> isSpace (rest ! 3)
              \<and> oneOrTwoDigits ordinalSuffix (dropWhile isSpace (drop 3 rest)) \<noteq> None
      then map_option fst (oneOrTwoDigits ordinalSuffix (dropWhile isSpace (drop 3 rest)))
      else map_option fst (oneOrTwoDigits ordinalSuffix rest))"

text \<open>\<open>/\b(\d{1,2})\b/\<close>; the result is group 1.\<close>

definition bareNumberAt :: "char option \<Rightarrow> string \<Rightarrow> string option" where
  "bareNumberAt prev rest =
     (if wordBoundary prev rest then map_option fst (oneOrTwoDigits boundaryAfter rest)
      else None)"

section \<open>Date extractor (dateParser.ts)\<close>

definition monthNames :: "string list" where
  "monthNames =
     [''january'', ''february'', ''march'', ''april'', ''may'', ''june'',
      ''july'', ''august'', ''september'', ''october'', ''november'', ''december'']"

text \<open>The first element of a list for which a loop body returns a value.\<close>

fun firstReturn :: "('a \<Rightarrow> 'b option) \<Rightarrow> 'a list \<Rightarrow> 'b option" where
  "firstReturn f [] = None"
| "firstReturn f (x # xs) = (case f x of Some r \<Rightarrow> Some r | None \<Rightarrow> firstReturn f xs)"

text \<open>
  \<open>parseDateNumber\<close>: the year and month of \<open>now\<close> in the time zone come from
  the platform; the month named first in the list of month names, if any,
  replaces the current month.
\<close>

definition monthIndexIn :: "string \<Rightarrow> int option" where
  "monthIndexIn txt =
     firstReturn (\<lambda>(i, name). if includesStr txt name then Some (int i + 1) else None)
       (enumerate 0 monthNames)"

definition parseDateNumber :: "Platform \<Rightarrow> int \<Rightarrow> string \<Rightarrow> int \<Rightarrow> int" where
  "parseDateNumber P dayOfMonth txt now =
     (case ymdInTZ P now of (year, month, d) \<Rightarrow>
        (let targetMonth = (case monthIndexIn txt of Some i \<Rightarrow> i | None \<Rightarrow> month);
             candidate = dateUTC year (targetMonth - 1) dayOfMonth 12 0 0
         in if candidate < now then dateUTC year targetMonth dayOfMonth 12 0 0
            else candidate))"

definition weekdayNumbers :: "(string \<times> int) list" where
  "weekdayNumbers =
     [(''sunday'', 0), (''monday'', 1), (''tuesday'', 2), (''wednesday'', 3),
      (''thursday'', 4), (''friday'', 5), (''saturday'', 6)]"

definition daysToAddFor :: "bool \<Rightarrow> int \<Rightarrow> int \<Rightarrow> int" where
  "daysToAddFor hasNext targetDay currentDayOfWeek =
     (if hasNext
      then (let d = (targetDay - currentDayOfWeek + 7) mod 7;
                d' = (if d = 0 then 7 else d)
            in if d' < 7 then d' + 7 else d')
      else (targetDay - currentDayOfWeek + 7) mod 7)"

definition parseRelativeDate :: "string \<Rightarrow> int \<Rightarrow> int option" where
  "parseRelativeDate txt now =
     (let cleaned = trim (toLowerCase txt);
          currentDayOfWeek = getUTCDay now
      in if includesStr cleaned ''tomorrow'' then Some (addDaysAtNoonUTC now 1)
         else if includesStr cleaned ''today'' then Some (addDaysAtNoonUTC now 0)
         else firstReturn
                (\<lambda>(dayName, targetDay).
                   if \<not> includesStr cleaned dayName then None
                   else Some (addDaysAtNoonUTC now
                                (daysToAddFor (includesStr cleaned ''next'') targetDay
                                   currentDayOfWeek)))
                weekdayNumbers)"

definition hasTimeIndicator :: "string \<Rightarrow> bool" where
  "hasTimeIndicator cleaned =
     (search amPmAt cleaned \<noteq> None \<or> search clockTimeAt cleaned \<noteq> None
        \<or> search atHourAt cleaned \<noteq> None)"

definition validDayOfMonth :: "string option \<Rightarrow> int option" where
  "validDayOfMonth m =
     (case m of
        None \<Rightarrow> None
      | Some digits \<Rightarrow>
          (let dayOfMonth = int (parseDigits digits)
           in if dayOfMonth \<ge> 1 \<and> dayOfMonth \<le> 31 then Some dayOfMonth else None))"

text \<open>
  The body of the two loops over the month names and over the weekday names:
  when the text contains the name, the first number of one or two digits
  standing alone, if it is a day of the month, gives the date.
\<close>

definition namedDayNumber :: "Platform \<Rightarrow> string \<Rightarrow> int \<Rightarrow> string \<Rightarrow> int option" where
  "namedDayNumber P cleaned now name =
     (if includesStr cleaned name
      then map_option (\<lambda>dayOfMonth. parseDateNumber P dayOfMonth cleaned now)
             (validDayOfMonth (search bareNumberAt cleaned))
      else None)"

definition extractRequestedDate :: "Platform \<Rightarrow> string \<Rightarrow> int \<Rightarrow> int option" where
  "extractRequestedDate P txt now =
     (let cleaned = trim (toLowerCase txt) in
      case parseRelativeDate cleaned now of
        Some relativeDateResult \<Rightarrow> Some relativeDateResult
      | None \<Rightarrow>
          if hasTimeIndicator cleaned then None
          else (case validDayOfMonth (search ordinalAt cleaned) of
                  Some dayOfMonth \<Rightarrow> Some (parseDateNumber P dayOfMonth cleaned now)
                | None \<Rightarrow>
                    (case firstReturn (namedDayNumber P cleaned now) monthNames of
                       Some r \<Rightarrow> Some r
                     | None \<Rightarrow> firstReturn (namedDayNumber P cleaned now) weekdayNames)))"

section \<open>The date extractor's inputs, in words\<close>

text \<open>
  The time-of-day indicators and the qualified weekdays as a reader of a text
  sees them, stated on the text itself and not through the extractor's
  patterns.  A part of a text starts a word when no word character stands
  before it, and ends a word when none stands after it.
\<close>

definition startsWord :: "string \<Rightarrow> bool" where
  "startsWord before = (before = [] \<or> \<not> isWordChar (last before))"

definition endsWord :: "string \<Rightarrow> bool" where
  "endsWord after = (after = [] \<or> \<not> isWordChar (hd after))"

text \<open>\<open>am\<close> or \<open>pm\<close> as a word of its own.\<close>

definition saysAmPm :: "string \<Rightarrow> bool" where
  "saysAmPm c =
     (\<exists>before after. (c = before @ ''am'' @ after \<or> c = before @ ''pm'' @ after)
        \<and> startsWord before \<and> endsWord after)"

text \<open>A clock time: one or two digits that start a word, a colon and two digits.\<close>

definition saysClockTime :: "string \<Rightarrow> bool" where
  "saysClockTime c =
     (\<exists>before h m after. c = before @ h @ '':'' @ m @ after \<and> startsWord before
        \<and> isBareNumber h \<and> length m = 2 \<and> list_all isDigit m)"

text \<open>
  The word \<open>at\<close>, white space, and a number of one or two digits that ends a
  word (so \<open>at 3\<close> and \<open>at 12\<close>, and not the \<open>at 3p\<close> of \<open>at 3pm\<close>).
\<close>

definition saysAtHour :: "string \<Rightarrow> bool" where
  "saysAtHour c =
     (\<exists>before gap n after. c = before @ ''at'' @ gap @ n @ after \<and> startsWord before
        \<and> gap \<noteq> [] \<and> list_all isSpace gap \<and> isBareNumber n \<and> endsWord after)"

definition saysTimeOfDay :: "string \<Rightarrow> bool" where
  "saysTimeOfDay c = (saysAmPm c \<or> saysClockTime c \<or> saysAtHour c)"

definition mentionsWeekday :: "string \<Rightarrow> bool" where
  "mentionsWeekday c = list_ex (includesStr c) weekdayNames"




section \<open>Slot matcher (flow.ts)\<close>

record SlotMatchResult =
  matched :: bool
  matchSlot :: "Slot option"
  requiresChoice :: "bool option"

definition matchedWith :: "Slot \<Rightarrow> SlotMatchResult" where
  "matchedWith s = \<lparr> matched = True, matchSlot = Some s, requiresChoice = None \<rparr>"

definition notMatched :: SlotMatchResult where
  "notMatched = \<lparr> matched = False, matchSlot = None, requiresChoice = None \<rparr>"

definition choiceRequired :: SlotMatchResult where
  "choiceRequired = \<lparr> matched = False, matchSlot = None, requiresChoice = Some True \<rparr>"

definition confirmWords :: "string list" where
  "confirmWords =
     [''yes'', ''yeah'', ''yep'', ''sure'', ''ok'', ''okay'', ''sounds good'', ''that works'',
      ''perfect'', ''great'']"

definition isConfirmWord :: "string \<Rightarrow> bool" where
  "isConfirmWord normalized =
     list_ex (\<lambda>w. normalized = w \<or> includesStr normalized w) confirmWords"

text \<open>
  \<open>/(\d{1,2}):(\d{2})\s*(am|pm)/i\<close>, the pattern of a displayed time: the
  match gives the hour digits, the minute digits, the white space and the
  day period as they stand in the string.  The three uses of the pattern in
  \<open>tryMatchSlot\<close> differ only in their groups.
\<close>

definition clockTail :: "char \<Rightarrow> string \<Rightarrow> (string \<times> string \<times> string) option" where
  "clockTail prev rest =
     (case rest of
        c # m1 # m2 # rest2 \<Rightarrow>
          if c = CHR '':'' \<and> isDigit m1 \<and> isDigit m2
             \<and> (startsWithCI (dropWhile isSpace rest2) ''am''
                  \<or> startsWithCI (dropWhile isSpace rest2) ''pm'')
          then Some ([m1, m2], takeWhile isSpace rest2, take 2 (dropWhile isSpace rest2))
          else None
      | _ \<Rightarrow> None)"

definition displayedTimeAt :: "char option \<Rightarrow> string \<Rightarrow> (string \<times> string \<times> string \<times> string) option" where
  "displayedTimeAt prev rest = oneOrTwoDigits clockTail rest"

text \<open>Group 1 of \<open>/(\d{1,2}:\d{2}\s*(?:AM|PM))/i\<close>: the whole match.\<close>

definition wholeTime :: "string \<Rightarrow> string option" where
  "wholeTime s =
     map_option (\<lambda>(h, m, sp, ap). h @ '':'' @ m @ sp @ ap) (search displayedTimeAt s)"

text \<open>\<open>label.match(...)?.[1] || ''\<close>\<close>

definition displayedTime :: "string \<Rightarrow> string" where
  "displayedTime lbl = (case wholeTime lbl of None \<Rightarrow> [] | Some t \<Rightarrow> t)"

text \<open>\<open>/^\d{1,2}:\d{2}$/\<close>, \<open>/^\d{1,2}$/\<close> and \<open>/^\d{1,2}(am|pm)$/i\<close>\<close>

definition isColonTime :: "string \<Rightarrow> bool" where
  "isColonTime s =
     (case s of
        [h, c, m1, m2] \<Rightarrow> isDigit h \<and> c = CHR '':'' \<and> isDigit m1 \<and> isDigit m2
      | [h1, h2, c, m1, m2] \<Rightarrow>
          isDigit h1 \<and> isDigit h2 \<and> c = CHR '':'' \<and> isDigit m1 \<and> isDigit m2
      | _ \<Rightarrow> False)"

definition isHourWithPeriod :: "string \<Rightarrow> bool" where
  "isHourWithPeriod s =
     (isBareNumber (takeWhile isDigit s)
      \<and> (map lowerChar (dropWhile isDigit s) = ''am'' \<or> map lowerChar (dropWhile isDigit s) = ''pm''))"

text \<open>
  \<open>/^(\w+day)/\<close>: the longest prefix of the leading run of word characters
  that ends in \<open>day\<close> and has a character before it.
\<close>

definition endsWith :: "string \<Rightarrow> string \<Rightarrow> bool" where
  "endsWith s w = (length w \<le> length s \<and> drop (length s - length w) s = w)"

definition leadingDay :: "string \<Rightarrow> string option" where
  "leadingDay s =
     (let run = takeWhile isWordChar s
      in find (\<lambda>p. endsWith p ''day'') (map (\<lambda>n. take n run) (rev [4..<Suc (length run)])))"

text \<open>The stages of \<open>tryMatchSlot\<close>; each gives the result it returns, if it returns.\<close>

definition confirmStage :: "string \<Rightarrow> Slot list \<Rightarrow> SlotMatchResult option" where
  "confirmStage normalized ss =
     (if isConfirmWord normalized
      then (case ss of
              [] \<Rightarrow> None
            | [only] \<Rightarrow> Some (matchedWith only)
            | s1 # s2 # _ \<Rightarrow>
                (let time1 = displayedTime (label s1);
                     time2 = displayedTime (label s2)
                 in if time1 = time2 then Some (matchedWith s1) else Some choiceRequired))
      else None)"

definition indexStage :: "string \<Rightarrow> Slot list \<Rightarrow> SlotMatchResult option" where
  "indexStage normalized ss =
     (if normalized = ''1'' \<and> length ss \<ge> 1 then Some (matchedWith (ss ! 0))
      else if normalized = ''2'' \<and> length ss \<ge> 2 then Some (matchedWith (ss ! 1))
      else None)"

definition dayNameStage :: "string \<Rightarrow> Slot list \<Rightarrow> SlotMatchResult option" where
  "dayNameStage normalized ss =
     firstReturn
       (\<lambda>dayName.
          if includesStr normalized dayName
          then map_option matchedWith
                 (find (\<lambda>s. includesStr (toLowerCase (label s)) dayName) ss)
          else None)
       weekdayNames"

definition exactLabelStage :: "string \<Rightarrow> Slot list \<Rightarrow> SlotMatchResult option" where
  "exactLabelStage normalized ss =
     map_option matchedWith (find (\<lambda>s. normalized = toLowerCase (label s)) ss)"

text \<open>
  \<open>"3:00"\<close> and \<open>"3"\<close>: the slot whose displayed hour is the hour typed and
  whose displayed minutes are the minutes typed (\<open>00\<close> for a bare hour).
\<close>

definition hourMinuteSlot :: "nat \<Rightarrow> string \<Rightarrow> Slot list \<Rightarrow> SlotMatchResult option" where
  "hourMinuteSlot hour minutes ss =
     (if hour \<ge> 1 \<and> hour \<le> 12
      then map_option matchedWith
             (find (\<lambda>s. case search displayedTimeAt (toLowerCase (label s)) of
                           None \<Rightarrow> False
                         | Some (h, m, sp, ap) \<Rightarrow> parseDigits h = hour \<and> m = minutes) ss)
      else None)"

definition colonTimeStage :: "string \<Rightarrow> Slot list \<Rightarrow> SlotMatchResult option" where
  "colonTimeStage userTime ss =
     (if isColonTime userTime
      then hourMinuteSlot (parseDigits (takeWhile isDigit userTime))
             (drop 1 (dropWhile isDigit userTime)) ss
      else None)"

definition bareHourStage :: "string \<Rightarrow> Slot list \<Rightarrow> SlotMatchResult option" where
  "bareHourStage userTime ss =
     (if isBareNumber userTime then hourMinuteSlot (parseDigits userTime) ''00'' ss else None)"

text \<open>\<open>"3pm"\<close> becomes \<open>"3:00pm"\<close>, \<open>"noon"\<close> and \<open>"midnight"\<close> their times.\<close>

definition normalizeUserTime :: "string \<Rightarrow> string" where
  "normalizeUserTime userTime =
     (let t1 = (if isHourWithPeriod userTime
                then takeWhile isDigit userTime @ '':00'' @ dropWhile isDigit userTime
                else userTime);
          t2 = (if t1 = ''noon'' then ''12:00pm'' else t1)
      in if t2 = ''midnight'' then ''12:00am'' else t2)"

definition slotTimeStage :: "string \<Rightarrow> Slot list \<Rightarrow> SlotMatchResult option" where
  "slotTimeStage userTime ss =
     map_option matchedWith
       (find (\<lambda>s. case wholeTime (toLowerCase (label s)) of
                     None \<Rightarrow> False
                   | Some t \<Rightarrow> userTime = toLowerCase (removeSpaces t)) ss)"

definition dayAndTimeStage :: "string \<Rightarrow> Slot list \<Rightarrow> SlotMatchResult option" where
  "dayAndTimeStage normalized ss =
     map_option matchedWith
       (find (\<lambda>s. case (leadingDay (toLowerCase (label s)), wholeTime (toLowerCase (label s))) of
                     (Some day, Some t) \<Rightarrow>
                       includesStr normalized day
                       \<and> includesStr (removeSpaces normalized) (toLowerCase (removeSpaces t))
                   | _ \<Rightarrow> False) ss)"

definition tryMatchSlot :: "string \<Rightarrow> Slot list \<Rightarrow> SlotMatchResult" where
  "tryMatchSlot txt ss =
     (if ss = [] then notMatched
      else (let normalized = trim (toLowerCase txt);
                userTime = removeSpaces normalized
            in case firstReturn (\<lambda>stage. stage)
                      [confirmStage normalized ss,
                       indexStage normalized ss,
                       dayNameStage normalized ss,
                       exactLabelStage normalized ss,
                       colonTimeStage userTime ss,
                       bareHourStage userTime ss,
                       slotTimeStage (normalizeUserTime userTime) ss,
                       dayAndTimeStage normalized ss] of
                 Some r \<Rightarrow> r
               | None \<Rightarrow> notMatched))"

text \<open>
  The parts of a label as \<open>formatSlotLabel\<close> writes them in \<open>en-US\<close>: a weekday
  name, which has no digit, an hour of one or two digits, a minute of two
  digits and \<open>AM\<close> or \<open>PM\<close>.  The displayed time of such a label is its hour,
  minute and day period.
\<close>

definition wellFormedLabelParts :: "string \<Rightarrow> string \<Rightarrow> string \<Rightarrow> string \<Rightarrow> bool" where
  "wellFormedLabelParts weekday hour minute dayPeriod =
     (list_all (\<lambda>c. \<not> isDigit c) weekday \<and> isBareNumber hour \<and> length minute = 2
        \<and> list_all isDigit minute \<and> (dayPeriod = ''AM'' \<or> dayPeriod = ''PM''))"

definition sundayNoon :: Slot where
  "sundayNoon = \<lparr> label = ''Sunday at 12:00 PM'', startISO = 1794139200000,
                  endISO = 1794150000000 \<rparr>"

text \<open>Two offers of the same Saturday noon window.\<close>

definition saturdayNoonAgain :: Slot where
  "saturdayNoonAgain = \<lparr> label = ''Saturday at 12:00 PM'', startISO = 1794657600000,
                         endISO = 1794668400000 \<rparr>"

section \<open>The turn handler (index.ts)\<close>

subsection \<open>Admission of an event\<close>

text \<open>
  \<open>upsertLeadByPsid\<close>.  The store resolves the sender id through its unique
  index on \<open>psid\<close>: \<open>rowId\<close> is the key of the row with this \<open>psid\<close> when there
  is one, and else the key generated for the new row.  An existing row gets
  \<open>status = 'active'\<close> and a new \<open>last_seen_at\<close>; a new row has the defaults of
  the table.
\<close>

definition upsertLeadByPsid ::
  "Repo \<Rightarrow> string \<Rightarrow> int \<Rightarrow> string \<Rightarrow> RepoError + (Lead \<times> Repo)" where
  "upsertLeadByPsid repo sender now rowId =
     (if \<not> online repo then Inl HttpFailure
      else (let row = (case leads repo rowId of
                         Some l \<Rightarrow> l\<lparr> status := Active, last_seen_at := now \<rparr>
                       | None \<Rightarrow>
                           \<lparr> psid = sender, status = Active, bot_enabled = True,
                             booked_event_id = None, booked_slot_label = None,
                             booked_slot_start = None, booked_slot_end = None,
                             pending_slot_label = None, pending_slot_start = None,
                             pending_slot_end = None, pending_claimed_at = None,
                             customer_name = None, customer_address = None,
                             customer_phone = None, last_seen_at = now \<rparr>)
            in Inr (row, repo\<lparr> leads := (leads repo)(rowId \<mapsto> row) \<rparr>)))"

record Event =
  isDelivery :: bool
  isRead :: bool
  isEcho :: bool
  senderId :: "string option"
  messageText :: "string option"

text \<open>
  What the handling of one event observes from the requests that do not touch
  \<open>bot_leads\<close>: the answer of the dedupe insert (whether the message was
  handled before, or a failed request, which throws), whether the insert of
  the inbound message into the log succeeds (a failed request throws), and,
  for the fallback reply of the error handler, whether its insert into the
  log and its delivery succeed.
\<close>

record EventObs =
  dedupeAnswer :: "RepoError + bool"
  inboundInserted :: bool
  outboundInserted :: bool
  messageSent :: bool

text \<open>
  How the handling of an event ends, as far as replies go: \<open>Dropped\<close> is a
  \<open>continue\<close> with no reply; \<open>FallbackSent\<close> is the reply of the error handler,
  \<open>Sorry - something went wrong. What day/time works for you?\<close>;
  \<open>FallbackNotSent\<close> is the error handler failing in turn; \<open>Continues\<close> is the
  way on to the attachment reply and the state machine, which reply.
\<close>

datatype Handling = Dropped | FallbackSent | FallbackNotSent | Continues Lead

text \<open>
  The \<open>catch\<close> of the turn: upsert the lead again, log the fallback message and
  send it.  It does not look at \<open>bot_enabled\<close>.
\<close>

definition errorHandler :: "Repo \<Rightarrow> string \<Rightarrow> string \<Rightarrow> int \<Rightarrow> EventObs \<Rightarrow> Handling \<times> Repo" where
  "errorHandler repo sender rowId now eo =
     (case upsertLeadByPsid repo sender now rowId of
        Inl e \<Rightarrow> (FallbackNotSent, repo)
      | Inr (lead, repo1) \<Rightarrow>
          if outboundInserted eo \<and> messageSent eo then (FallbackSent, repo1)
          else (FallbackNotSent, repo1))"

text \<open>
  The handling of one event up to the check of \<open>bot_enabled\<close>, with the error
  handler.  The history and analytics requests between the inbound insert
  and the check are wrapped in their own \<open>try\<close> and change nothing here.
\<close>

definition handleEvent ::
  "Repo \<Rightarrow> Event \<Rightarrow> string \<Rightarrow> int \<Rightarrow> EventObs \<Rightarrow> Handling \<times> Repo" where
  "handleEvent repo ev rowId now eo =
     (if isDelivery ev \<or> isRead ev \<or> isEcho ev then (Dropped, repo)
      else if falsy (senderId ev) then (Dropped, repo)
      else (case upsertLeadByPsid repo (the (senderId ev)) now rowId of
              Inl e \<Rightarrow> errorHandler repo (the (senderId ev)) rowId now eo
            | Inr (lead, repo1) \<Rightarrow>
                (case dedupeAnswer eo of
                   Inl e \<Rightarrow> errorHandler repo1 (the (senderId ev)) rowId now eo
                 | Inr alreadyProcessed \<Rightarrow>
                     if alreadyProcessed then (Dropped, repo1)
                     else if \<not> inboundInserted eo
                     then errorHandler repo1 (the (senderId ev)) rowId now eo
                     else if \<not> bot_enabled lead then (Dropped, repo1)
                     else (Continues lead, repo1))))"

text \<open>
  A text message of the lead with sender id \<open>psid-1\<close>, and what its handling
  observes when the insert into the message log fails, when the dedupe insert
  fails (the fallback reply can then be logged and delivered), and when every
  request succeeds.
\<close>

definition laterMessage :: Event where
  "laterMessage =
     \<lparr> isDelivery = False, isRead = False, isEcho = False, senderId = Some ''psid-1'',
       messageText = Some ''is it still on?'' \<rparr>"

definition logInsertFails :: EventObs where
  "logInsertFails =
     \<lparr> dedupeAnswer = Inr False, inboundInserted = False, outboundInserted = True,
       messageSent = True \<rparr>"

definition dedupeInsertFails :: EventObs where
  "dedupeInsertFails =
     \<lparr> dedupeAnswer = Inl HttpFailure, inboundInserted = True, outboundInserted = True,
       messageSent = True \<rparr>"

definition logInsertWorks :: EventObs where
  "logInsertWorks =
     \<lparr> dedupeAnswer = Inr False, inboundInserted = True, outboundInserted = True,
       messageSent = True \<rparr>"

subsection \<open>Finalization after the phone number\<close>

datatype Step = Start | Closing | Post_book_collect

text \<open>A reply is its template and the values it is filled with.\<close>

datatype Reply =
    PendingExpired "Slot list"
  | MissingAddress
  | MissingPhone
  | FinalizedBooking string
  | SlotGotTaken "Slot list"

datatype TurnError = RepoFailed RepoError | CalendarFailed GenError

text \<open>
  What the finalization observes: \<open>here\<close> is the clock and the free/busy
  answer for its own steps, \<open>regen\<close> what a regeneration of slots observes, and
  \<open>createAnswer\<close> the answer of the calendar to the creation of the event (the
  event id, which may be missing, or a failed request).
\<close>

record TurnObs =
  here :: Obs
  regen :: "nat \<Rightarrow> Obs"
  createAnswer :: "GenError + string option"

text \<open>
  The result: the store after the turn, the calendar events the turn created,
  and either the error thrown to the handler of the turn (the conversation
  state is then not persisted) or the step, context and reply.
\<close>

record TurnResult =
  repoAfter :: Repo
  created :: "Slot list"
  outcome :: "TurnError + (Step \<times> Context \<times> Reply)"

definition overlapsStrings :: "int \<Rightarrow> int \<Rightarrow> int \<Rightarrow> int \<Rightarrow> bool" where
  "overlapsStrings start1 end1 start2 end2 = (start1 < end2 \<and> start2 < end1)"

definition isSlotStillFree :: "Obs \<Rightarrow> Slot \<Rightarrow> GenError + bool" where
  "isSlotStillFree ob slot =
     bindE (freeBusy ob (startISO slot) (endISO slot)) (\<lambda>busyBlocks.
       Inr (\<not> list_ex (\<lambda>busy. overlapsStrings (startISO slot) (endISO slot)
                                 (busyStart busy) (busyEnd busy)) busyBlocks))"

definition defaultSearch :: SearchOptions where
  "defaultSearch = \<lparr> daysPrimary = 7, daysFallback = 14 \<rparr>"

text \<open>
  Release the claim, generate fresh slots and go back to \<open>closing\<close>: the steps
  shared by the three restarts of the finalization.
\<close>

definition restartOffer ::
  "Platform \<Rightarrow> Repo \<Rightarrow> string \<Rightarrow> Context \<Rightarrow> TurnObs \<Rightarrow> Slot list \<Rightarrow> (Slot list \<Rightarrow> Reply)
     \<Rightarrow> TurnResult" where
  "restartOffer P repo leadId ctx tobs made reply =
     (case releasePendingClaim repo leadId of
        Inl e \<Rightarrow> \<lparr> repoAfter = repo, created = made, outcome = Inl (RepoFailed e) \<rparr>
      | Inr repo1 \<Rightarrow>
          (case generateTwoSlots P defaultSearch None 3 (regen tobs) of
             Inl e \<Rightarrow> \<lparr> repoAfter = repo1, created = made, outcome = Inl (CalendarFailed e) \<rparr>
           | Inr newSlots \<Rightarrow>
               \<lparr> repoAfter = repo1, created = made,
                 outcome = Inr (Closing,
                                ctx\<lparr> slots := Some newSlots, collectStep := None \<rparr>,
                                reply newSlots) \<rparr>))"

text \<open>
  Steps 3 and 4 of the finalization, inside the \<open>try\<close>: create the event,
  check its id, move the pending fields to the booked fields, disable the
  bot and reset the conversation.  Whatever throws there is caught and leads
  to a restart.
\<close>

definition createAndFinalize ::
  "Platform \<Rightarrow> Repo \<Rightarrow> string \<Rightarrow> Context \<Rightarrow> TurnObs \<Rightarrow> PendingSlot \<Rightarrow> string \<Rightarrow> string
     \<Rightarrow> TurnResult" where
  "createAndFinalize P repo leadId ctx tobs pending addr ph =
     (let slot = \<lparr> label = pendingLabel pending, startISO = pendingStart pending,
                   endISO = pendingEnd pending \<rparr>
      in case createAnswer tobs of
           Inl e \<Rightarrow> restartOffer P repo leadId ctx tobs [] SlotGotTaken
         | Inr eventId \<Rightarrow>
             if falsy eventId then restartOffer P repo leadId ctx tobs [slot] SlotGotTaken
             else (case finalizeBookingWithDetails repo leadId (the eventId) addr ph of
                     Inl e \<Rightarrow> restartOffer P repo leadId ctx tobs [slot] SlotGotTaken
                   | Inr repo1 \<Rightarrow>
                       (case disableBot repo1 leadId of
                          Inl e \<Rightarrow> restartOffer P repo1 leadId ctx tobs [slot] SlotGotTaken
                        | Inr repo2 \<Rightarrow>
                            \<lparr> repoAfter = repo2, created = [slot],
                              outcome = Inr (Start, initializeContext emptyContext,
                                             FinalizedBooking (pendingLabel pending)) \<rparr>)))"

text \<open>
  The branch \<open>collectStep === 'phone'\<close> of \<open>post_book_collect\<close>: the message is
  the phone number, and the booking is finalized.
\<close>

definition finalizeAfterPhone ::
  "Platform \<Rightarrow> Repo \<Rightarrow> string \<Rightarrow> string \<Rightarrow> Context \<Rightarrow> TurnObs \<Rightarrow> TurnResult" where
  "finalizeAfterPhone P repo leadId msg ctx0 tobs =
     (let ctx = ctx0\<lparr> phone := Some msg \<rparr> in
      case getPendingSlot repo leadId (clock (here tobs)) of
        Inl e \<Rightarrow> \<lparr> repoAfter = repo, created = [], outcome = Inl (RepoFailed e) \<rparr>
      | Inr None \<Rightarrow> restartOffer P repo leadId ctx tobs [] PendingExpired
      | Inr (Some pending) \<Rightarrow>
          if pendingLabel pending = [] then restartOffer P repo leadId ctx tobs [] PendingExpired
          else if falsy (address ctx) \<or> falsy (phone ctx) then
            (if falsy (address ctx)
             then \<lparr> repoAfter = repo, created = [],
                    outcome = Inr (Post_book_collect,
                                   ctx\<lparr> collectStep := Some CollectAddress \<rparr>, MissingAddress) \<rparr>
             else \<lparr> repoAfter = repo, created = [],
                    outcome = Inr (Post_book_collect,
                                   ctx\<lparr> collectStep := Some CollectPhone \<rparr>, MissingPhone) \<rparr>)
          else (case isSlotStillFree (here tobs)
                       \<lparr> label = pendingLabel pending, startISO = pendingStart pending,
                         endISO = pendingEnd pending \<rparr> of
                  Inl e \<Rightarrow> \<lparr> repoAfter = repo, created = [], outcome = Inl (CalendarFailed e) \<rparr>
                | Inr stillFree \<Rightarrow>
                    if \<not> stillFree then restartOffer P repo leadId ctx tobs [] PendingExpired
                    else createAndFinalize P repo leadId ctx tobs pending
                           (the (address ctx)) (the (phone ctx))))"

text \<open>
  A lead that claimed Saturday noon at 05:18 UTC on Tuesday, a conversation
  that has its address, and what two later turns observe: one at 05:28, ten
  minutes after the claim, and one at 05:38, twenty minutes after it.
\<close>

definition holdingLead :: Lead where
  "holdingLead =
     freshLead\<lparr> pending_slot_label := Some ''Saturday at 12:00 PM'',
                pending_slot_start := Some 1794052800000,
                pending_slot_end := Some 1794063600000,
                pending_claimed_at := Some 1793683080000 \<rparr>"

definition collecting :: Context where
  "collecting = emptyContext\<lparr> address := Some ''12 Main St'', collectStep := Some CollectPhone \<rparr>"

definition turnAt :: "int \<Rightarrow> TurnObs" where
  "turnAt t =
     \<lparr> here = \<lparr> clock = t, freeBusy = (\<lambda>rangeStart rangeEnd. Inr []) \<rparr>,
       regen = (\<lambda>i. \<lparr> clock = t, freeBusy = (\<lambda>rangeStart rangeEnd. Inr []) \<rparr>),
       createAnswer = Inr (Some ''evt-1'') \<rparr>"


section \<open>A concrete platform: the time zone UTC\<close>

text \<open>
  The platform of a calendar kept in UTC, used to run the generator on
  concrete inputs: the civil date of a day number, the 24-hour clock, English
  weekday names and the 12-hour clock of \<open>en-US\<close>.  The parser accepts a
  four-digit year and fields in range (a day of the month up to 31, which
  \<open>Date.UTC\<close> carries over).
\<close>

definition civilFromDays :: "int \<Rightarrow> int \<times> int \<times> int" where
  "civilFromDays n =
     (let z = n + 719468;
          era = z div 146097;
          doe = z - era * 146097;
          yoe = (doe - doe div 1460 + doe div 36524 - doe div 146096) div 365;
          y = yoe + era * 400;
          doy = doe - (365 * yoe + yoe div 4 - yoe div 100);
          mp = (5 * doy + 2) div 153;
          d = doy - (153 * mp + 2) div 5 + 1;
          m = (if mp < 10 then mp + 3 else mp - 9)
      in (if m \<le> 2 then y + 1 else y, m, d))"

definition digitChar :: "int \<Rightarrow> char" where
  "digitChar n = char_of (48 + nat n)"

definition twoDigits :: "int \<Rightarrow> string" where
  "twoDigits n = [digitChar (n div 10), digitChar (n mod 10)]"

definition numeric :: "int \<Rightarrow> string" where
  "numeric n = (if n < 10 then [digitChar n] else twoDigits n)"

definition englishWeekdays :: "string list" where
  "englishWeekdays =
     [''Sunday'', ''Monday'', ''Tuesday'', ''Wednesday'', ''Thursday'', ''Friday'', ''Saturday'']"

definition utcHour :: "int \<Rightarrow> int" where
  "utcHour t = (t div 3600000) mod 24"

definition utcPlatform :: Platform where
  "utcPlatform =
     \<lparr> ymdInTZ = (\<lambda>t. civilFromDays (dayNumber t)),
       hourInTZ = utcHour,
       weekdayInTZ = (\<lambda>t. englishWeekdays ! nat (getUTCDay t)),
       hour12InTZ = (\<lambda>t. numeric (if utcHour t mod 12 = 0 then 12 else utcHour t mod 12)),
       minuteInTZ = (\<lambda>t. twoDigits ((t div 60000) mod 60)),
       dayPeriodInTZ = (\<lambda>t. if utcHour t < 12 then ''AM'' else ''PM''),
       parseUTC = (\<lambda>y m d hh mm.
          if 1000 \<le> y \<and> y \<le> 9999 \<and> 1 \<le> m \<and> m \<le> 12 \<and> 1 \<le> d \<and> d \<le> 31
             \<and> 0 \<le> hh \<and> hh \<le> 23 \<and> 0 \<le> mm \<and> mm \<le> 59
          then Some (dateUTC y (m - 1) d hh mm 0) else None) \<rparr>"

text \<open>
  Tuesday 2026-11-03, 05:18 UTC, with one appointment in the calendar, on
  Friday 2026-11-06 from 12:00 to 15:00 UTC.
\<close>

definition tuesdayMorning :: Obs where
  "tuesdayMorning =
     \<lparr> clock = 1793683080000,
       freeBusy = (\<lambda>rangeStart rangeEnd.
          Inr [\<lparr> busyStart = 1793966400000, busyEnd = 1793977200000 \<rparr>]) \<rparr>"

text \<open>
  The store after the lead that claimed Saturday noon at 05:18 has sent the
  phone number at 05:28 and the booking was finalized.
\<close>

definition afterBooking :: Repo where
  "afterBooking =
     repoAfter (finalizeAfterPhone utcPlatform (repoOf holdingLead) ''lead-1'' ''801-555-0100''
                  collecting (turnAt 1793683680000))"

section \<open>Properties of the context tracker\<close>

lemma attemptsOrZero_track:
  "attemptsOrZero (trackOfferedSlots ctx ss ok) = (if ok then 0 else attemptsOrZero ctx + 1)"
  by (simp add: trackOfferedSlots_def attemptsOrZero_def Let_def)

text \<open>
  Claim C9.  \<open>trackOfferedSlots\<close> sets the attempt counter to zero when the
  offered slots are a successful match and to the old counter plus one
  otherwise (a missing counter counts as zero); \<open>shouldAskOpenEnded\<close> holds
  exactly when the counter is at least 2 and
  \<open>shouldTriggerGracefulDegradation\<close> exactly when it is at least 3.
\<close>

theorem attempt_counter_thresholds:
  "attemptCount (trackOfferedSlots ctx ss True) = Some 0
   \<and> attemptCount (trackOfferedSlots ctx ss False) = Some (attemptsOrZero ctx + 1)
   \<and> shouldAskOpenEnded ctx = (attemptsOrZero ctx \<ge> 2)
   \<and> shouldTriggerGracefulDegradation ctx = (attemptsOrZero ctx \<ge> 3)
   \<and> attemptsOrZero (ctx\<lparr>attemptCount := None\<rparr>) = 0
   \<and> attemptsOrZero (ctx\<lparr>attemptCount := Some n\<rparr>) = n"
  by (simp add: trackOfferedSlots_def attemptsOrZero_def Let_def
      shouldAskOpenEnded_def shouldTriggerGracefulDegradation_def)

section \<open>Properties of the claim update\<close>

lemma patchLead_hit:
  "online repo \<Longrightarrow> leads repo leadId = Some l \<Longrightarrow> cond l \<Longrightarrow>
   patchLead repo leadId cond upd
     = Inr (Some (upd l), repo\<lparr> leads := (leads repo)(leadId \<mapsto> upd l) \<rparr>)"
  by (simp add: patchLead_def)

lemma patchLead_miss:
  "online repo \<Longrightarrow> leads repo leadId = Some l \<Longrightarrow> \<not> cond l \<Longrightarrow>
   patchLead repo leadId cond upd = Inr (None, repo)"
  by (simp add: patchLead_def)

text \<open>
  Claim C10.  The only condition the store checks in the conditional claim
  update is that \<open>booked_event_id\<close> is null.  For a lead row with no finalized
  booking the claim succeeds whatever the pending fields hold, also an
  unexpired claim: it returns the updated row, in which the pending label,
  start, end and claim time are overwritten with the new slot and the time of
  the call, and every other column but \<open>status\<close> is kept.  It returns no row,
  and changes nothing, exactly when the row has a finalized booking.
\<close>

theorem claim_checks_only_booked_event_id:
  assumes "online repo" and "leads repo leadId = Some l"
  shows "tryClaimPendingSlot repo leadId slot now =
           (if booked_event_id l = None
            then Inr (Some (l\<lparr> pending_slot_label := Some (label slot),
                               pending_slot_start := Some (startISO slot),
                               pending_slot_end := Some (endISO slot),
                               pending_claimed_at := Some now,
                               status := Active \<rparr>),
                      repo\<lparr> leads := (leads repo)(leadId \<mapsto>
                              l\<lparr> pending_slot_label := Some (label slot),
                                 pending_slot_start := Some (startISO slot),
                                 pending_slot_end := Some (endISO slot),
                                 pending_claimed_at := Some now,
                                 status := Active \<rparr>) \<rparr>)
            else Inr (None, repo))"
  using assms by (simp add: tryClaimPendingSlot_def patchLead_def)

text \<open>
  A witness for C10: a lead that holds a claim on the noon slot made one
  minute earlier claims the three o'clock slot; the claim succeeds and
  overwrites the earlier one.
\<close>

theorem claim_checks_only_booked_event_id_witness:
  "online (repoOf (freshLead\<lparr> pending_slot_label := Some ''Saturday at 12:00 PM'',
                             pending_slot_start := Some 1794052800000,
                             pending_slot_end := Some 1794063600000,
                             pending_claimed_at := Some 1793683020000 \<rparr>))
   \<and> map_sum id (map_option pending_slot_label \<circ> fst)
        (tryClaimPendingSlot
           (repoOf (freshLead\<lparr> pending_slot_label := Some ''Saturday at 12:00 PM'',
                                pending_slot_start := Some 1794052800000,
                                pending_slot_end := Some 1794063600000,
                                pending_claimed_at := Some 1793683020000 \<rparr>))
           ''lead-1'' saturdayThree 1793683080000)
       = Inr (Some (Some ''Saturday at 3:00 PM''))"
  using claim_checks_only_booked_event_id
    [of "repoOf (freshLead\<lparr> pending_slot_label := Some ''Saturday at 12:00 PM'',
                             pending_slot_start := Some 1794052800000,
                             pending_slot_end := Some 1794063600000,
                             pending_claimed_at := Some 1793683020000 \<rparr>)"
        "''lead-1''"
        "freshLead\<lparr> pending_slot_label := Some ''Saturday at 12:00 PM'',
                     pending_slot_start := Some 1794052800000,
                     pending_slot_end := Some 1794063600000,
                     pending_claimed_at := Some 1793683020000 \<rparr>"
        saturdayThree 1793683080000]
  by (simp add: repoOf_def freshLead_def saturdayThree_def)

text \<open>
  Claim C1 on the code.  Two claim attempts on one lead for different slots:
  the store applies each update atomically, so the two run in one order or
  the other.  In both orders both attempts return the updated row; neither
  observes an empty result, and the later one overwrites the earlier claim.
\<close>

theorem two_claims_both_succeed:
  "(case tryClaimPendingSlot (repoOf freshLead) ''lead-1'' saturdayNoon 1793683080000 of
      Inr (Some row1, repo1) \<Rightarrow>
        (case tryClaimPendingSlot repo1 ''lead-1'' saturdayThree 1793683080001 of
           Inr (Some row2, repo2) \<Rightarrow>
             pending_slot_label row1 = Some ''Saturday at 12:00 PM''
             \<and> pending_slot_label row2 = Some ''Saturday at 3:00 PM''
         | _ \<Rightarrow> False)
    | _ \<Rightarrow> False)
   \<and> (case tryClaimPendingSlot (repoOf freshLead) ''lead-1'' saturdayThree 1793683080000 of
      Inr (Some row1, repo1) \<Rightarrow>
        (case tryClaimPendingSlot repo1 ''lead-1'' saturdayNoon 1793683080001 of
           Inr (Some row2, repo2) \<Rightarrow>
             pending_slot_label row1 = Some ''Saturday at 3:00 PM''
             \<and> pending_slot_label row2 = Some ''Saturday at 12:00 PM''
         | _ \<Rightarrow> False)
    | _ \<Rightarrow> False)"
  by (simp add: tryClaimPendingSlot_def patchLead_def repoOf_def freshLead_def
      saturdayNoon_def saturdayThree_def)

section \<open>Properties of the slot generator\<close>

lemma bindE_Inr_iff: "bindE r f = Inr v \<longleftrightarrow> (\<exists>x. r = Inr x \<and> f x = Inr v)"
  by (cases r) (simp_all add: bindE_def)

lemma dedupeFrom_distinct:
  "distinct (map slotKey (dedupeFrom seen ss)) \<and> set (dedupeFrom seen ss) \<subseteq> set ss
   \<and> slotKey ` set (dedupeFrom seen ss) \<inter> set seen = {}"
proof (induction ss arbitrary: seen)
  case Nil
  show ?case by simp
next
  case (Cons s ss)
  show ?case
  proof (cases "slotKey s \<in> set seen")
    case True
    with Cons.IH [of seen] show ?thesis by auto
  next
    case False
    with Cons.IH [of "slotKey s # seen"] show ?thesis by auto
  qed
qed

lemma dedupeSlots_distinct: "distinct (map slotKey (dedupeSlots ss))"
  using dedupeFrom_distinct [of "[]" ss] by (simp add: dedupeSlots_def)

lemma dedupeSlots_subset: "set (dedupeSlots ss) \<subseteq> set ss"
  using dedupeFrom_distinct [of "[]" ss] by (simp add: dedupeSlots_def)

lemma take_dedupe_distinct: "distinct (map slotKey (take n (dedupeSlots ss)))"
  using dedupeSlots_distinct [of ss] by (simp add: take_map [symmetric])

lemma take_dedupe_subset: "set (take n (dedupeSlots ss)) \<subseteq> set ss"
  using dedupeSlots_subset [of ss] set_take_subset [of n "dedupeSlots ss"] by blast

lemma addCandidates_future:
  "\<forall>s \<in> set out. now < endISO s \<Longrightarrow> \<forall>c \<in> set cs. now < snd c \<Longrightarrow>
   \<forall>s \<in> set (addCandidates P busy maxSlots out cs). now < endISO s"
proof (induction cs arbitrary: out)
  case Nil
  then show ?case by simp
next
  case (Cons c cs)
  let ?out' = "if \<not> isBusyIn busy c
        \<and> \<not> list_ex (\<lambda>s. startISO s = startISO (slotOf P c) \<and> endISO s = endISO (slotOf P c)) out
        \<and> length out < maxSlots then out @ [slotOf P c] else out"
  have out': "\<forall>s \<in> set ?out'. now < endISO s"
    using Cons.prems by (auto simp: slotOf_def)
  have rest: "\<forall>c \<in> set cs. now < snd c" using Cons.prems by simp
  show ?case
  proof (cases "length ?out' \<ge> maxSlots")
    case True
    then have "addCandidates P busy maxSlots out (c # cs) = ?out'"
      by (simp add: Let_def)
    with out' show ?thesis by presburger
  next
    case False
    then have "addCandidates P busy maxSlots out (c # cs) = addCandidates P busy maxSlots ?out' cs"
      by (simp add: Let_def)
    with Cons.IH [OF out' rest] show ?thesis by presburger
  qed
qed

lemma dayLoop_future:
  "dayLoop P busy ex maxSlots now rangeStart i k out = Inr res \<Longrightarrow>
   \<forall>s \<in> set out. now < endISO s \<Longrightarrow> \<forall>s \<in> set res. now < endISO s"
proof (induction k arbitrary: i out)
  case 0
  then show ?case by simp
next
  case (Suc k)
  obtain y m d where ymd: "ymdInTZ P (rangeStart + int i * 24 * 60 * 60 * 1000) = (y, m, d)"
    by (cases "ymdInTZ P (rangeStart + int i * 24 * 60 * 60 * 1000)") auto
  show ?case
  proof (cases "toLowerCase (weekdayInTZ P (rangeStart + int i * 24 * 60 * 60 * 1000)) \<in> set ex")
    case True
    with Suc.prems(1) ymd
    have "dayLoop P busy ex maxSlots now rangeStart (Suc i) k out = Inr res"
      by (simp add: Let_def)
    from Suc.IH [OF this Suc.prems(2)] show ?thesis .
  next
    case False
    with Suc.prems(1) ymd obtain windows where
      w: "dayWindows P y m d = Inr windows" and
      r: "(let candidates = filter (\<lambda>c. snd c > now) windows;
               out' = addCandidates P busy maxSlots out candidates
           in if length out' \<ge> maxSlots then Inr out'
              else dayLoop P busy ex maxSlots now rangeStart (Suc i) k out') = Inr res"
      by (auto simp: Let_def bindE_Inr_iff)
    let ?out' = "addCandidates P busy maxSlots out (filter (\<lambda>c. snd c > now) windows)"
    have out': "\<forall>s \<in> set ?out'. now < endISO s"
      by (rule addCandidates_future [OF Suc.prems(2)]) simp
    show ?thesis
    proof (cases "length ?out' \<ge> maxSlots")
      case True
      with r have "res = ?out'" by (simp add: Let_def)
      with out' show ?thesis by simp
    next
      case False
      with r have "dayLoop P busy ex maxSlots now rangeStart (Suc i) k ?out' = Inr res"
        by (simp add: Let_def)
      from Suc.IH [OF this out'] show ?thesis .
    qed
  qed
qed

lemma fixedWindows_sound:
  assumes "generateTwoSlotsFixedWindows P days ex maxSlots off ob = Inr ss"
  shows "distinct (map slotKey ss) \<and> (\<forall>s \<in> set ss. clock ob < endISO s)"
proof -
  obtain y m d where ymd: "ymdInTZ P (clock ob) = (y, m, d)"
    by (cases "ymdInTZ P (clock ob)") auto
  from assms ymd obtain rangeStart busy out where
    dl: "dayLoop P busy ex maxSlots (clock ob) rangeStart 0 days [] = Inr out" and
    ss: "ss = dedupeSlots out"
    by (auto simp: generateTwoSlotsFixedWindows_def Let_def bindE_Inr_iff)
  have "\<forall>s \<in> set out. clock ob < endISO s"
    using dayLoop_future [OF dl] by simp
  with ss dedupeSlots_subset [of out] dedupeSlots_distinct [of out] show ?thesis by blast
qed

lemma specificDate_future:
  assumes "generateSlotsForSpecificDate P targetDate ob = Inr ss"
  shows "\<forall>s \<in> set ss. clock ob < endISO s"
proof -
  obtain y m d where ymd: "ymdInTZ P targetDate = (y, m, d)"
    by (cases "ymdInTZ P targetDate") auto
  from assms ymd obtain busy windows where
    "ss = map (slotOf P) (filter (\<lambda>c. \<not> isBusyIn busy c) (filter (\<lambda>c. snd c > clock ob) windows))"
    by (auto simp: generateSlotsForSpecificDate_def Let_def bindE_Inr_iff)
  then show ?thesis by (auto simp: slotOf_def)
qed

lemma searchForward_future:
  "searchForward P obs y m d i k = Inr (Some s) \<Longrightarrow> \<forall>j. t0 \<le> clock (obs j) \<Longrightarrow> t0 < endISO s"
proof (induction k arbitrary: i)
  case 0
  then show ?case by simp
next
  case (Suc k)
  from Suc.prems(1) obtain nextSlots where
    g: "generateSlotsForSpecificDate P (dateUTC y (m - 1) (d + int i) 12 0 0) (obs i) = Inr nextSlots" and
    r: "(case nextSlots of [] \<Rightarrow> searchForward P obs y m d (Suc i) k | x # _ \<Rightarrow> Inr (Some x)) = Inr (Some s)"
    by (auto simp: Let_def bindE_Inr_iff)
  show ?case
  proof (cases nextSlots)
    case Nil
    with r have "searchForward P obs y m d (Suc i) k = Inr (Some s)" by simp
    from Suc.IH [OF this Suc.prems(2)] show ?thesis .
  next
    case (Cons x xs)
    with r have "x = s" by simp
    with Cons specificDate_future [OF g] have "clock (obs i) < endISO s" by simp
    with Suc.prems(2) [rule_format, of i] show ?thesis by simp
  qed
qed

lemma twoSlots_sound:
  assumes run: "generateTwoSlots P opts fd off obs = Inr ss"
    and clk: "\<forall>j. t0 \<le> clock (obs j)"
  shows "distinct (map slotKey ss) \<and> (\<forall>s \<in> set ss. t0 < endISO s)"
proof (cases fd)
  case None
  from run None obtain found where
    f: "generateTwoSlotsFixedWindows P (daysPrimary opts) [] 999 off (obs 0) = Inr found" and
    r: "(if length found \<ge> 2 then Inr (take 2 (dedupeSlots found))
         else bindE (generateTwoSlotsFixedWindows P (daysFallback opts) [] 999 off (obs 1))
                (\<lambda>found'. Inr (take 2 (dedupeSlots found')))) = Inr ss"
    by (auto simp: generateTwoSlots_def bindE_Inr_iff)
  have fut0: "\<forall>s \<in> set found. t0 < endISO s"
    using fixedWindows_sound [OF f] clk [rule_format, of 0] by fastforce
  show ?thesis
  proof (cases "length found \<ge> 2")
    case True
    with r have "ss = take 2 (dedupeSlots found)" by simp
    with fut0 take_dedupe_distinct [of 2 found] take_dedupe_subset [of 2 found]
    show ?thesis by blast
  next
    case False
    with r obtain found' where
      f': "generateTwoSlotsFixedWindows P (daysFallback opts) [] 999 off (obs 1) = Inr found'" and
      ss: "ss = take 2 (dedupeSlots found')"
      by (auto simp: bindE_Inr_iff)
    have "\<forall>s \<in> set found'. t0 < endISO s"
      using fixedWindows_sound [OF f'] clk [rule_format, of 1] by fastforce
    with ss take_dedupe_distinct [of 2 found'] take_dedupe_subset [of 2 found']
    show ?thesis by blast
  qed
next
  case (Some forced)
  from run Some obtain dateSlots where
    g: "generateSlotsForSpecificDate P forced (obs 0) = Inr dateSlots" and
    r: "(if length dateSlots \<ge> 2 then Inr (take 2 (dedupeSlots dateSlots))
         else if length dateSlots = 1 then
           (case ymdInTZ P forced of (y, m, d) \<Rightarrow>
              bindE (searchForward P obs y m d 1 14) (\<lambda>second.
                Inr (take 2 (dedupeSlots (dateSlots @ (case second of None \<Rightarrow> [] | Some s \<Rightarrow> [s]))))))
         else Inr (take 2 (dedupeSlots dateSlots))) = Inr ss"
    by (auto simp: generateTwoSlots_def bindE_Inr_iff)
  have fut0: "\<forall>s \<in> set dateSlots. t0 < endISO s"
    using specificDate_future [OF g] clk [rule_format, of 0] by fastforce
  consider (plain) "ss = take 2 (dedupeSlots dateSlots)"
    | (more) y m d second where "searchForward P obs y m d 1 14 = Inr second"
        "ss = take 2 (dedupeSlots (dateSlots @ (case second of None \<Rightarrow> [] | Some s \<Rightarrow> [s])))"
    using r by (auto simp: bindE_Inr_iff split: if_splits prod.splits)
  then show ?thesis
  proof cases
    case plain
    with fut0 take_dedupe_distinct [of 2 dateSlots] take_dedupe_subset [of 2 dateSlots]
    show ?thesis by blast
  next
    case more
    let ?all = "dateSlots @ (case second of None \<Rightarrow> [] | Some s \<Rightarrow> [s])"
    have "\<forall>s \<in> set ?all. t0 < endISO s"
    proof (cases second)
      case None
      with fut0 show ?thesis by simp
    next
      case (Some s)
      with more(1) searchForward_future [OF _ clk] have "t0 < endISO s" by blast
      with fut0 Some show ?thesis by simp
    qed
    with more(2) take_dedupe_distinct [of 2 ?all] take_dedupe_subset [of 2 ?all]
    show ?thesis by blast
  qed
qed

text \<open>
  Claim C8.  A slot set returned by the generator holds no two slots with the
  same (start, end), and every slot ends strictly after the generation time.
  For \<open>generateTwoSlotsFixedWindows\<close> the generation time is the clock value it
  reads when it starts; \<open>generateTwoSlots\<close> reads the clock once in every
  search it runs, and none of these readings is earlier than the time \<open>t0\<close>
  at which it was called.
\<close>

theorem generated_slots_distinct_and_future:
  "(generateTwoSlotsFixedWindows P days ex maxSlots off ob = Inr ss \<longrightarrow>
      distinct (map slotKey ss) \<and> (\<forall>s \<in> set ss. clock ob < endISO s))
   \<and> (generateTwoSlots P opts fd off obs = Inr ss' \<and> (\<forall>j. t0 \<le> clock (obs j)) \<longrightarrow>
      distinct (map slotKey ss') \<and> (\<forall>s \<in> set ss'. t0 < endISO s))"
  using fixedWindows_sound [of P days ex maxSlots off ob ss]
    twoSlots_sound [of P opts fd off obs ss' t0]
  by blast

text \<open>
  A witness for C8, in UTC: on Tuesday morning a one-day search starting
  three days ahead finds Friday 3 PM (Friday noon is busy), and a search
  forced to Saturday finds Saturday noon and Saturday 3 PM.
\<close>

lemma fixedWindows_run:
  "generateTwoSlotsFixedWindows utcPlatform 1 [] 2 3 tuesdayMorning
     = Inr [\<lparr>label = ''Friday at 3:00 PM'', startISO = 1793977200000, endISO = 1793988000000\<rparr>]"
proof -
  have c: "clock tuesdayMorning = 1793683080000"
    by (simp add: tuesdayMorning_def)
  have fb: "\<And>a b. freeBusy tuesdayMorning a b
      = Inr [\<lparr> busyStart = 1793966400000, busyEnd = 1793977200000 \<rparr>]"
    by (simp add: tuesdayMorning_def)
  have ymd: "ymdInTZ utcPlatform 1793683080000 = (2026, 11, 3)"
    by code_simp
  have rs: "makeDateInTZ utcPlatform 2026 11 6 0 0 = Inr 1793923200000"
    by code_simp
  have dl: "dayLoop utcPlatform [\<lparr> busyStart = 1793966400000, busyEnd = 1793977200000 \<rparr>] [] 2
        1793683080000 1793923200000 0 (Suc 0) []
      = Inr [\<lparr>label = ''Friday at 3:00 PM'', startISO = 1793977200000, endISO = 1793988000000\<rparr>]"
    by code_simp
  have dd: "dedupeSlots
        [\<lparr>label = ''Friday at 3:00 PM'', startISO = 1793977200000, endISO = 1793988000000\<rparr>]
      = [\<lparr>label = ''Friday at 3:00 PM'', startISO = 1793977200000, endISO = 1793988000000\<rparr>]"
    by (simp add: dedupeSlots_def)
  show ?thesis
    by (simp add: generateTwoSlotsFixedWindows_def c fb ymd rs dl dd bindE_def
        del: dayLoop.simps)
qed

lemma forcedSaturday_run:
  "generateTwoSlots utcPlatform \<lparr>daysPrimary = 7, daysFallback = 14\<rparr> (Some 1794052800000) 3
      (\<lambda>i. tuesdayMorning)
     = Inr [saturdayNoon, saturdayThree]"
  by code_simp

theorem generated_slots_distinct_and_future_witness:
  "generateTwoSlotsFixedWindows utcPlatform 1 [] 2 3 tuesdayMorning
     = Inr [\<lparr>label = ''Friday at 3:00 PM'', startISO = 1793977200000, endISO = 1793988000000\<rparr>]
   \<and> generateTwoSlots utcPlatform \<lparr>daysPrimary = 7, daysFallback = 14\<rparr> (Some 1794052800000) 3
         (\<lambda>i. tuesdayMorning)
       = Inr [saturdayNoon, saturdayThree]
   \<and> distinct (map slotKey [saturdayNoon, saturdayThree])
   \<and> 1793683080000 < endISO saturdayNoon \<and> 1793683080000 < endISO saturdayThree
   \<and> clock tuesdayMorning < 1793988000000"
  using generated_slots_distinct_and_future
    [of utcPlatform 1 "[]" 2 3 tuesdayMorning
        "[\<lparr>label = ''Friday at 3:00 PM'', startISO = 1793977200000, endISO = 1793988000000\<rparr>]"
        "\<lparr>daysPrimary = 7, daysFallback = 14\<rparr>" "Some 1794052800000" "\<lambda>i. tuesdayMorning"
        "[saturdayNoon, saturdayThree]" 1793683080000]
    fixedWindows_run forcedSaturday_run
  by (simp add: tuesdayMorning_def)

section \<open>Properties of the finalization\<close>








lemma restartOffer_not_finalized:
  "(\<And>ss. reply ss \<noteq> FinalizedBooking lbl) \<Longrightarrow>
   outcome (restartOffer P repo leadId ctx tobs made reply) \<noteq> Inr (st, ctx', FinalizedBooking lbl)"
  by (auto simp: restartOffer_def split: sum.splits)

lemma getPendingSlot_Some:
  assumes "getPendingSlot repo leadId now = Inr (Some pending)" "leads repo leadId = Some l"
  shows "online repo \<and> pending_slot_label l = Some (pendingLabel pending)
         \<and> pending_slot_start l = Some (pendingStart pending)
         \<and> pending_slot_end l = Some (pendingEnd pending)
         \<and> pendingLabel pending \<noteq> []"
  using assms
  by (auto simp: getPendingSlot_def getLeadById_def split: option.splits if_splits)

lemma finalizeBookingWithDetails_row:
  assumes "online repo" "leads repo leadId = Some l" "pending_slot_label l = Some lbl" "lbl \<noteq> []"
    "pending_slot_start l = Some s" "pending_slot_end l = Some e"
  shows "finalizeBookingWithDetails repo leadId eventId addr ph
     = Inr (repo\<lparr> leads := (leads repo)(leadId \<mapsto>
              l\<lparr> status := Booked, booked_event_id := Some eventId,
                 booked_slot_label := pending_slot_label l,
                 booked_slot_start := pending_slot_start l,
                 booked_slot_end := pending_slot_end l,
                 customer_name := None, customer_address := Some addr,
                 customer_phone := Some ph,
                 pending_slot_label := None, pending_slot_start := None,
                 pending_slot_end := None, pending_claimed_at := None \<rparr>) \<rparr>)"
  using assms by (simp add: finalizeBookingWithDetails_def getLeadById_def patchLead_def falsy_def)

lemma disableBot_row:
  assumes "online repo" "leads repo leadId = Some l"
  shows "disableBot repo leadId
     = Inr (repo\<lparr> leads := (leads repo)(leadId \<mapsto> l\<lparr> bot_enabled := False \<rparr>) \<rparr>)"
  using assms by (simp add: disableBot_def patchLead_def)

lemma createAndFinalize_success:
  assumes out: "outcome (createAndFinalize P repo leadId ctx tobs pending addr ph)
                  = Inr (st, ctx', FinalizedBooking lbl)"
    and on: "online repo" and row: "leads repo leadId = Some l"
    and pl: "pending_slot_label l = Some (pendingLabel pending)" "pendingLabel pending \<noteq> []"
    and ps: "pending_slot_start l = Some (pendingStart pending)"
    and pe: "pending_slot_end l = Some (pendingEnd pending)"
  shows "\<exists>eventId. createAnswer tobs = Inr (Some eventId) \<and> eventId \<noteq> []
     \<and> repoAfter (createAndFinalize P repo leadId ctx tobs pending addr ph)
        = repo\<lparr> leads := (leads repo)(leadId \<mapsto>
              l\<lparr> status := Booked, booked_event_id := Some eventId,
                 booked_slot_label := pending_slot_label l,
                 booked_slot_start := pending_slot_start l,
                 booked_slot_end := pending_slot_end l,
                 customer_name := None, customer_address := Some addr,
                 customer_phone := Some ph,
                 pending_slot_label := None, pending_slot_start := None,
                 pending_slot_end := None, pending_claimed_at := None,
                 bot_enabled := False \<rparr>) \<rparr>
     \<and> st = Start \<and> ctx' = initializeContext emptyContext \<and> lbl = pendingLabel pending"
proof (cases "createAnswer tobs")
  case (Inl e)
  with out restartOffer_not_finalized [of SlotGotTaken lbl] show ?thesis
    by (simp add: createAndFinalize_def)
next
  case (Inr idOpt)
  show ?thesis
  proof (cases "falsy idOpt")
    case True
    with Inr out restartOffer_not_finalized [of SlotGotTaken lbl] show ?thesis
      by (simp add: createAndFinalize_def)
  next
    case False
    then obtain eventId where eid: "idOpt = Some eventId" "eventId \<noteq> []"
      by (auto simp: falsy_def split: option.splits)
    let ?l1 = "l\<lparr> status := Booked, booked_event_id := Some eventId,
                 booked_slot_label := pending_slot_label l,
                 booked_slot_start := pending_slot_start l,
                 booked_slot_end := pending_slot_end l,
                 customer_name := None, customer_address := Some addr,
                 customer_phone := Some ph,
                 pending_slot_label := None, pending_slot_start := None,
                 pending_slot_end := None, pending_claimed_at := None \<rparr>"
    let ?repo1 = "repo\<lparr> leads := (leads repo)(leadId \<mapsto> ?l1) \<rparr>"
    have fin: "finalizeBookingWithDetails repo leadId eventId addr ph = Inr ?repo1"
      by (rule finalizeBookingWithDetails_row [OF on row pl ps pe])
    have dis: "disableBot ?repo1 leadId
        = Inr (?repo1\<lparr> leads := (leads ?repo1)(leadId \<mapsto> ?l1\<lparr> bot_enabled := False \<rparr>) \<rparr>)"
      by (rule disableBot_row) (simp_all add: on)
    have res: "createAndFinalize P repo leadId ctx tobs pending addr ph
        = \<lparr> repoAfter = ?repo1\<lparr> leads := (leads ?repo1)(leadId \<mapsto> ?l1\<lparr> bot_enabled := False \<rparr>) \<rparr>,
            created = [\<lparr> label = pendingLabel pending, startISO = pendingStart pending,
                         endISO = pendingEnd pending \<rparr>],
            outcome = Inr (Start, initializeContext emptyContext,
                           FinalizedBooking (pendingLabel pending)) \<rparr>"
      using Inr False eid fin dis by (simp add: createAndFinalize_def Let_def)
    from out res have "st = Start" "ctx' = initializeContext emptyContext"
      "lbl = pendingLabel pending" by simp_all
    with res Inr eid show ?thesis by simp
  qed
qed

lemma finalize_success_path:
  assumes out: "outcome (finalizeAfterPhone P repo leadId msg ctx0 tobs)
                  = Inr (st, ctx', FinalizedBooking lbl)"
    and row: "leads repo leadId = Some l"
  shows "\<exists>eventId addr. createAnswer tobs = Inr (Some eventId) \<and> eventId \<noteq> []
     \<and> address ctx0 = Some addr \<and> pending_slot_label l = Some lbl
     \<and> pending_slot_start l \<noteq> None \<and> pending_slot_end l \<noteq> None
     \<and> repoAfter (finalizeAfterPhone P repo leadId msg ctx0 tobs)
        = repo\<lparr> leads := (leads repo)(leadId \<mapsto>
              l\<lparr> status := Booked, booked_event_id := Some eventId,
                 booked_slot_label := pending_slot_label l,
                 booked_slot_start := pending_slot_start l,
                 booked_slot_end := pending_slot_end l,
                 customer_name := None, customer_address := Some addr,
                 customer_phone := Some msg,
                 pending_slot_label := None, pending_slot_start := None,
                 pending_slot_end := None, pending_claimed_at := None,
                 bot_enabled := False \<rparr>) \<rparr>
     \<and> st = Start \<and> ctx' = initializeContext emptyContext"
proof -
  let ?ctx = "ctx0\<lparr> phone := Some msg \<rparr>"
  note nf = restartOffer_not_finalized [of PendingExpired lbl, simplified]
  from out nf obtain pending where
    gp: "getPendingSlot repo leadId (clock (here tobs)) = Inr (Some pending)"
    by (cases "getPendingSlot repo leadId (clock (here tobs))")
       (auto simp: finalizeAfterPhone_def Let_def split: option.splits)
  note p = getPendingSlot_Some [OF gp row]
  from out gp p nf have addr: "\<not> falsy (address ?ctx)" "\<not> falsy (phone ?ctx)"
    by (auto simp: finalizeAfterPhone_def Let_def split: if_splits)
  then obtain addr where a: "address ctx0 = Some addr"
    by (auto simp: falsy_def split: option.splits)
  from out gp p nf addr
  have cf: "outcome (createAndFinalize P repo leadId ?ctx tobs pending addr msg)
              = Inr (st, ctx', FinalizedBooking lbl)"
    and eq: "finalizeAfterPhone P repo leadId msg ctx0 tobs
              = createAndFinalize P repo leadId ?ctx tobs pending addr msg"
    using a by (auto simp: finalizeAfterPhone_def Let_def split: if_splits sum.splits)
  from createAndFinalize_success [OF cf _ row] p eq a show ?thesis by auto
qed

text \<open>
  The check of \<open>bot_enabled\<close>: when the two inserts into the logs succeed, an
  event of a disabled lead gets no reply.
\<close>

lemma handleEvent_disabled:
  assumes "leads repo rowId = Some l" and "\<not> bot_enabled l"
    and "dedupeAnswer eo = Inr dup" and "inboundInserted eo"
  shows "fst (handleEvent repo ev rowId now eo) = Dropped
         \<or> fst (handleEvent repo ev rowId now eo) = FallbackNotSent"
  using assms
  by (auto simp: handleEvent_def errorHandler_def upsertLeadByPsid_def Let_def)

text \<open>
  The error handler: when the dedupe insert or the insert of the inbound
  message fails, the fallback reply is logged and sent, whatever
  \<open>bot_enabled\<close> is.
\<close>

lemma handleEvent_fallback:
  assumes "online repo" and "\<not> isDelivery ev" "\<not> isRead ev" "\<not> isEcho ev"
    and "\<not> falsy (senderId ev)"
    and "dedupeAnswer eo = Inl e \<or> dedupeAnswer eo = Inr False \<and> \<not> inboundInserted eo"
    and "outboundInserted eo" and "messageSent eo"
  shows "fst (handleEvent repo ev rowId now eo) = FallbackSent"
  using assms
  by (auto simp: handleEvent_def errorHandler_def upsertLeadByPsid_def Let_def)

lemma finalize_run:
  "finalizeAfterPhone utcPlatform (repoOf holdingLead) ''lead-1'' ''801-555-0100''
     collecting (turnAt 1793683680000)
     = \<lparr> repoAfter =
           repoOf (freshLead\<lparr> status := Booked, bot_enabled := False,
                     booked_event_id := Some ''evt-1'',
                     booked_slot_label := Some ''Saturday at 12:00 PM'',
                     booked_slot_start := Some 1794052800000,
                     booked_slot_end := Some 1794063600000,
                     customer_address := Some ''12 Main St'',
                     customer_phone := Some ''801-555-0100'' \<rparr>),
         created = [saturdayNoon],
         outcome = Inr (Start, initializeContext emptyContext,
                        FinalizedBooking ''Saturday at 12:00 PM'') \<rparr>"
  by (simp add: finalizeAfterPhone_def getPendingSlot_def getLeadById_def repoOf_def
      holdingLead_def freshLead_def turnAt_def collecting_def emptyContext_def falsy_def
      isSlotStillFree_def bindE_def createAndFinalize_def finalizeBookingWithDetails_def
      patchLead_def disableBot_def saturdayNoon_def Let_def)

text \<open>
  Claim C3.  The lead that claimed Saturday noon at 05:18 sends the phone
  number at 05:28 and the finalization succeeds: the four pending fields of
  the row are cleared, the booked fields hold the event id of the calendar and
  the label, start and end that were claimed, and the bot is disabled.  A
  later message of the lead gets no reply when it is logged.  But when the
  insert of the message into the log fails, or the dedupe insert, the error
  handler of the turn sends the fallback reply to the lead whose bot is
  disabled.
\<close>

theorem disabled_lead_gets_fallback_reply:
  "outcome (finalizeAfterPhone utcPlatform (repoOf holdingLead) ''lead-1'' ''801-555-0100''
              collecting (turnAt 1793683680000))
     = Inr (Start, initializeContext emptyContext, FinalizedBooking ''Saturday at 12:00 PM'')
   \<and> map_option (\<lambda>r. (pending_slot_label r, pending_slot_start r, pending_slot_end r,
                        pending_claimed_at r))
        (leads afterBooking ''lead-1'')
       = Some (None, None, None, None)
   \<and> map_option (\<lambda>r. (booked_event_id r, booked_slot_label r, booked_slot_start r,
                        booked_slot_end r))
        (leads afterBooking ''lead-1'')
       = Some (Some ''evt-1'', pending_slot_label holdingLead, pending_slot_start holdingLead,
               pending_slot_end holdingLead)
   \<and> map_option bot_enabled (leads afterBooking ''lead-1'') = Some False
   \<and> fst (handleEvent afterBooking laterMessage ''lead-1'' 1793683740000 logInsertWorks)
       = Dropped
   \<and> fst (handleEvent afterBooking laterMessage ''lead-1'' 1793683740000 logInsertFails)
       = FallbackSent
   \<and> fst (handleEvent afterBooking laterMessage ''lead-1'' 1793683740000 dedupeInsertFails)
       = FallbackSent"
proof -
  have ab: "afterBooking
      = repoOf (freshLead\<lparr> status := Booked, bot_enabled := False,
                  booked_event_id := Some ''evt-1'',
                  booked_slot_label := Some ''Saturday at 12:00 PM'',
                  booked_slot_start := Some 1794052800000,
                  booked_slot_end := Some 1794063600000,
                  customer_address := Some ''12 Main St'',
                  customer_phone := Some ''801-555-0100'' \<rparr>)"
    by (simp add: afterBooking_def finalize_run)
  have h: "fst (handleEvent afterBooking laterMessage ''lead-1'' 1793683740000 logInsertWorks)
             = Dropped"
    "fst (handleEvent afterBooking laterMessage ''lead-1'' 1793683740000 logInsertFails)
       = FallbackSent"
    "fst (handleEvent afterBooking laterMessage ''lead-1'' 1793683740000 dedupeInsertFails)
       = FallbackSent"
    by (simp_all add: ab handleEvent_def errorHandler_def upsertLeadByPsid_def repoOf_def
        freshLead_def laterMessage_def logInsertWorks_def logInsertFails_def
        dedupeInsertFails_def falsy_def Let_def)
  have o: "outcome (finalizeAfterPhone utcPlatform (repoOf holdingLead) ''lead-1''
                      ''801-555-0100'' collecting (turnAt 1793683680000))
      = Inr (Start, initializeContext emptyContext, FinalizedBooking ''Saturday at 12:00 PM'')"
    by (simp add: finalize_run)
  have f: "map_option (\<lambda>r. (pending_slot_label r, pending_slot_start r, pending_slot_end r,
                                pending_claimed_at r))
             (leads afterBooking ''lead-1'')
           = Some (None, None, None, None)"
    "map_option (\<lambda>r. (booked_event_id r, booked_slot_label r, booked_slot_start r,
                          booked_slot_end r))
       (leads afterBooking ''lead-1'')
     = Some (Some ''evt-1'', pending_slot_label holdingLead, pending_slot_start holdingLead,
             pending_slot_end holdingLead)"
    "map_option bot_enabled (leads afterBooking ''lead-1'') = Some False"
    by (simp_all add: ab repoOf_def freshLead_def holdingLead_def)
  show ?thesis
    by (intro conjI o f h)
qed

section \<open>Properties of the date extractor\<close>

lemma code_lowerChar:
  "code (lowerChar c) =
     (if (65 \<le> code c \<and> code c \<le> 90) \<or> (192 \<le> code c \<and> code c \<le> 222 \<and> code c \<noteq> 215)
      then code c + 32 else code c)"
  by (auto simp: lowerChar_def code_def)

lemma lowerChar_idem: "lowerChar (lowerChar c) = lowerChar c"
proof -
  have "code (lowerChar (lowerChar c)) = code (lowerChar c)"
    by (simp add: code_lowerChar)
  then show ?thesis by (simp add: code_def)
qed

lemma isSpace_lowerChar: "isSpace (lowerChar c) = isSpace c"
  by (auto simp: isSpace_def code_lowerChar)

lemma toLowerCase_idem: "toLowerCase (toLowerCase s) = toLowerCase s"
  by (simp add: toLowerCase_def lowerChar_idem)

lemma dropWhile_isSpace_lower:
  "dropWhile isSpace (map lowerChar s) = map lowerChar (dropWhile isSpace s)"
  by (induction s) (simp_all add: isSpace_lowerChar)

lemma trim_toLowerCase: "trim (toLowerCase s) = toLowerCase (trim s)"
  by (simp add: trim_def toLowerCase_def rev_map dropWhile_isSpace_lower)

lemma dropWhile_fix: "xs = [] \<or> \<not> P (hd xs) \<Longrightarrow> dropWhile P xs = xs"
  by (cases xs) auto

lemma hd_dropWhile_not: "dropWhile P xs = [] \<or> \<not> P (hd (dropWhile P xs))"
  using hd_dropWhile [of P xs] by blast

lemma trim_idem: "trim (trim s) = trim s"
proof -
  let ?t = "dropWhile isSpace s"
  let ?v = "dropWhile isSpace (rev ?t)"
  have v: "?v = [] \<or> \<not> isSpace (hd ?v)" by (rule hd_dropWhile_not)
  have t: "?t = [] \<or> \<not> isSpace (hd ?t)" by (rule hd_dropWhile_not)
  have "rev ?v = [] \<or> \<not> isSpace (hd (rev ?v))"
  proof (cases "?t = []")
    case True
    then have "rev ?v = []" by (simp del: dropWhile_eq_Nil_conv)
    then show ?thesis by (rule disjI1)
  next
    case False
    with t have ns: "\<not> isSpace (hd ?t)" by blast
    from False have "rev ?t \<noteq> []" by simp
    have "last (rev ?t) = hd ?t" using False by (simp add: last_rev)
    with ns have "\<not> isSpace (last (rev ?t))" by simp
    then have "?v \<noteq> [] \<and> last ?v = last (rev ?t)"
      using \<open>rev ?t \<noteq> []\<close>
      by (metis dropWhile_eq_Nil_conv last_in_set takeWhile_dropWhile_id last_appendR)
    then have "hd (rev ?v) = hd ?t" using \<open>last (rev ?t) = hd ?t\<close> by (simp add: hd_rev)
    with ns show ?thesis by simp
  qed
  then have 1: "dropWhile isSpace (rev ?v) = rev ?v" by (rule dropWhile_fix)
  have 2: "dropWhile isSpace ?v = ?v" using v by (rule dropWhile_fix)
  show ?thesis by (simp add: trim_def 1 2)
qed

lemma cleaned_idem: "trim (toLowerCase (trim (toLowerCase s))) = trim (toLowerCase s)"
  by (simp add: trim_toLowerCase toLowerCase_idem trim_idem)

lemma firstReturn_None: "(\<And>x. x \<in> set xs \<Longrightarrow> f x = None) \<Longrightarrow> firstReturn f xs = None"
  by (induction xs) auto

lemma parseRelativeDate_None:
  assumes "\<not> includesStr (trim (toLowerCase txt)) ''tomorrow''"
    and "\<not> includesStr (trim (toLowerCase txt)) ''today''"
    and "\<not> list_ex (includesStr (trim (toLowerCase txt))) weekdayNames"
  shows "parseRelativeDate (trim (toLowerCase txt)) now = None"
  using assms
  by (simp add: parseRelativeDate_def cleaned_idem Let_def weekdayNumbers_def weekdayNames_def)

lemma isBareNumber_cases [consumes 1, case_names one two]:
  assumes "isBareNumber h"
  obtains a where "h = [a]" "isDigit a" | a b where "h = [a, b]" "isDigit a" "isDigit b"
proof -
  from assms have "length h = 1 \<or> length h = 2" "list_all isDigit h"
    by (simp_all add: isBareNumber_def)
  then show ?thesis
    by (cases h; cases "tl h"; cases "tl (tl h)") (auto intro: that)
qed

lemma firstMatch_reaches:
  "m (case pre of [] \<Rightarrow> prev | _ \<Rightarrow> Some (last pre)) rest \<noteq> None \<Longrightarrow>
   firstMatch m prev (pre @ rest) \<noteq> None"
proof (induction pre arbitrary: prev)
  case Nil
  then show ?case by (cases rest) (auto split: option.splits)
next
  case (Cons x xs)
  have "m (case xs of [] \<Rightarrow> Some x | _ \<Rightarrow> Some (last xs)) rest \<noteq> None"
    using Cons.prems by (cases xs) simp_all
  from Cons.IH [OF this] show ?case by (simp split: option.splits)
qed

lemma search_reaches:
  "m (case pre of [] \<Rightarrow> None | _ \<Rightarrow> Some (last pre)) rest \<noteq> None \<Longrightarrow>
   search m (pre @ rest) \<noteq> None"
  unfolding search_def by (rule firstMatch_reaches)

lemma isDigit_word: "isDigit c \<Longrightarrow> isWordChar c"
  by (simp add: isWordChar_def)

lemma isDigit_not_space: "isDigit c \<Longrightarrow> \<not> isSpace c"
  by (auto simp: isDigit_def isSpace_def)

lemma wordBoundary_start:
  "isWordChar c \<Longrightarrow>
   wordBoundary (case pre of [] \<Rightarrow> None | _ \<Rightarrow> Some (last pre)) (c # cs) = startsWord pre"
  by (cases pre) (auto simp: wordBoundary_def startsWord_def)

lemma wordBoundary_end: "isWordChar c \<Longrightarrow> wordBoundary (Some c) post = endsWord post"
  by (cases post) (auto simp: wordBoundary_def endsWord_def)

lemma letters: "isWordChar CHR ''a''" "isWordChar CHR ''p''" "isWordChar CHR ''m''"
  "isWordChar CHR ''t''"
  by (simp_all add: isWordChar_def isDigit_def code_def)

lemma startsWithCI_append: "map lowerChar w = w \<Longrightarrow> startsWithCI (w @ rest) w"
  by (simp add: startsWithCI_def)

lemma saysAmPm_found: "saysAmPm c \<Longrightarrow> search amPmAt c \<noteq> None"
proof -
  assume "saysAmPm c"
  then obtain pre post w where c: "c = pre @ w @ post" and w: "w = ''am'' \<or> w = ''pm''"
    and b: "startsWord pre" "endsWord post"
    unfolding saysAmPm_def by blast
  have lw: "map lowerChar w = w" using w by (auto simp: lowerChar_def code_def)
  have "amPmAt (case pre of [] \<Rightarrow> None | _ \<Rightarrow> Some (last pre)) (w @ post) \<noteq> None"
    using w b lw startsWithCI_append [of w post]
    by (auto simp: amPmAt_def wordBoundary_start wordBoundary_end letters)
  from search_reaches [of amPmAt pre "w @ post", OF this] c show ?thesis by simp
qed

lemma saysClockTime_found: "saysClockTime c \<Longrightarrow> search clockTimeAt c \<noteq> None"
proof -
  assume "saysClockTime c"
  then obtain pre h m post where c: "c = pre @ h @ '':'' @ m @ post" and b: "startsWord pre"
    and h: "isBareNumber h" and m: "length m = 2" "list_all isDigit m"
    unfolding saysClockTime_def by blast
  from m obtain m1 m2 where mm: "m = [m1, m2]" "isDigit m1" "isDigit m2"
    by (cases m; cases "tl m"; cases "tl (tl m)") auto
  have nd: "\<not> isDigit CHR '':''" by (simp add: isDigit_def code_def)
  have "clockTimeAt (case pre of [] \<Rightarrow> None | _ \<Rightarrow> Some (last pre)) (h @ '':'' @ m @ post)
          \<noteq> None"
    using h
  proof (cases h rule: isBareNumber_cases)
    case (one a)
    with mm b nd show ?thesis
      by (simp add: clockTimeAt_def wordBoundary_start isDigit_word oneOrTwoDigits_def
          colonTwoDigits_def)
  next
    case (two a d)
    with mm b show ?thesis
      by (simp add: clockTimeAt_def wordBoundary_start isDigit_word oneOrTwoDigits_def
          colonTwoDigits_def)
  qed
  from search_reaches [of clockTimeAt pre "h @ '':'' @ m @ post", OF this] c
  show ?thesis by simp
qed

lemma dropWhile_gap:
  "list_all isSpace gap \<Longrightarrow> isDigit d \<Longrightarrow> dropWhile isSpace (gap @ d # rest) = d # rest"
  by (induction gap) (simp_all add: isDigit_not_space)

lemma saysAtHour_found: "saysAtHour c \<Longrightarrow> search atHourAt c \<noteq> None"
proof -
  assume "saysAtHour c"
  then obtain pre gap n post where c: "c = pre @ ''at'' @ gap @ n @ post"
    and b: "startsWord pre" "endsWord post" and g: "gap \<noteq> []" "list_all isSpace gap"
    and n: "isBareNumber n"
    unfolding saysAtHour_def by blast
  from g obtain g1 gs where gap: "gap = g1 # gs" "isSpace g1" by (cases gap) auto
  have ci: "startsWithCI (''at'' @ gap @ n @ post) ''at''"
    by (rule startsWithCI_append) (simp add: lowerChar_def code_def)
  have digits: "oneOrTwoDigits boundaryAfter (n @ post) \<noteq> None"
    using n
  proof (cases n rule: isBareNumber_cases)
    case (one a)
    show ?thesis
    proof (cases post)
      case Nil
      with one show ?thesis
        by (simp add: oneOrTwoDigits_def boundaryAfter_def wordBoundary_end isDigit_word
            endsWord_def)
    next
      case (Cons q qs)
      with b(2) have "\<not> isWordChar q" by (simp add: endsWord_def)
      then have "\<not> isDigit q" using isDigit_word by blast
      with one Cons b(2) show ?thesis
        by (simp add: oneOrTwoDigits_def boundaryAfter_def wordBoundary_end isDigit_word)
    qed
  next
    case (two a d)
    with b(2) show ?thesis
      by (simp add: oneOrTwoDigits_def boundaryAfter_def wordBoundary_end isDigit_word)
  qed
  have dw: "dropWhile isSpace (gap @ n @ post) = n @ post"
    using n g(2)
    by (cases n rule: isBareNumber_cases) (simp_all add: dropWhile_gap)
  have "atHourAt (case pre of [] \<Rightarrow> None | _ \<Rightarrow> Some (last pre)) (''at'' @ gap @ n @ post)
          \<noteq> None"
    using b(1) ci gap digits dw
    by (simp add: atHourAt_def wordBoundary_start letters)
  from search_reaches [of atHourAt pre "''at'' @ gap @ n @ post", OF this] c
  show ?thesis by simp
qed

lemma saysTimeOfDay_guard: "saysTimeOfDay c \<Longrightarrow> hasTimeIndicator c"
  using saysAmPm_found saysClockTime_found saysAtHour_found
  by (auto simp: saysTimeOfDay_def hasTimeIndicator_def)

text \<open>
  Claim C4, amended.  A text that says a time of day (\<open>am\<close> or \<open>pm\<close> as a
  word of its own; one or two digits that start a word, a colon and two
  digits; or the word \<open>at\<close>, white space and a number of one or two digits
  that ends a word) and that, lower-cased and trimmed, contains none of
  \<open>tomorrow\<close>, \<open>today\<close> and the seven weekday names yields no date.
\<close>

theorem time_indicator_rejected_without_relative_words:
  assumes "saysTimeOfDay (trim (toLowerCase txt))"
    and "\<not> includesStr (trim (toLowerCase txt)) ''tomorrow''"
    and "\<not> includesStr (trim (toLowerCase txt)) ''today''"
    and "\<not> mentionsWeekday (trim (toLowerCase txt))"
  shows "extractRequestedDate P txt now = None"
proof -
  have "hasTimeIndicator (trim (toLowerCase txt))"
    using assms(1) by (rule saysTimeOfDay_guard)
  moreover have "parseRelativeDate (trim (toLowerCase txt)) now = None"
    using assms(2-4) by (intro parseRelativeDate_None) (simp_all add: mentionsWeekday_def)
  ultimately show ?thesis
    by (simp add: extractRequestedDate_def Let_def)
qed

lemma saysAtHour_example: "saysAtHour ''the 17th at 3''"
  unfolding saysAtHour_def
  by (rule exI [of _ "''the 17th ''"], rule exI [of _ "'' ''"], rule exI [of _ "''3''"],
      rule exI [of _ "[]"]) code_simp

lemma saysAmPm_example: "saysAmPm ''the 17th, 3 pm''"
  unfolding saysAmPm_def
  by (rule exI [of _ "''the 17th, 3 ''"], rule exI [of _ "[]"]) code_simp

lemma saysClockTime_example: "saysClockTime ''12:30 on the 17th''"
  unfolding saysClockTime_def
  by (rule exI [of _ "[]"], rule exI [of _ "''12''"], rule exI [of _ "''30''"],
      rule exI [of _ "'' on the 17th''"]) code_simp

lemma saysAtHour_tomorrow: "saysAtHour ''tomorrow at 3''"
  unfolding saysAtHour_def
  by (rule exI [of _ "''tomorrow ''"], rule exI [of _ "'' ''"], rule exI [of _ "''3''"],
      rule exI [of _ "[]"]) code_simp

text \<open>
  A witness for the amended C4: \<open>the 17th\<close> alone is the 17th of November,
  and with a time of day in each of the three forms the text yields no date.
\<close>

theorem time_indicator_rejected_without_relative_words_witness:
  "saysTimeOfDay (trim (toLowerCase ''the 17th at 3''))
   \<and> saysTimeOfDay (trim (toLowerCase ''The 17th, 3 PM''))
   \<and> saysTimeOfDay (trim (toLowerCase ''12:30 on the 17th''))
   \<and> extractRequestedDate utcPlatform ''the 17th at 3'' 1793683080000 = None
   \<and> extractRequestedDate utcPlatform ''The 17th, 3 PM'' 1793683080000 = None
   \<and> extractRequestedDate utcPlatform ''12:30 on the 17th'' 1793683080000 = None
   \<and> extractRequestedDate utcPlatform ''the 17th'' 1793683080000 = Some 1794916800000"
proof -
  have t: "trim (toLowerCase ''the 17th at 3'') = ''the 17th at 3''"
    "trim (toLowerCase ''The 17th, 3 PM'') = ''the 17th, 3 pm''"
    "trim (toLowerCase ''12:30 on the 17th'') = ''12:30 on the 17th''"
    by code_simp+
  have s: "saysTimeOfDay ''the 17th at 3''" "saysTimeOfDay ''the 17th, 3 pm''"
    "saysTimeOfDay ''12:30 on the 17th''"
    using saysAtHour_example saysAmPm_example saysClockTime_example
    by (simp_all add: saysTimeOfDay_def)
  have w1: "\<not> includesStr ''the 17th at 3'' ''tomorrow''"
    "\<not> includesStr ''the 17th at 3'' ''today''"
    "\<not> mentionsWeekday ''the 17th at 3''" by code_simp+
  have w2: "\<not> includesStr ''the 17th, 3 pm'' ''tomorrow''"
    "\<not> includesStr ''the 17th, 3 pm'' ''today''"
    "\<not> mentionsWeekday ''the 17th, 3 pm''" by code_simp+
  have w3: "\<not> includesStr ''12:30 on the 17th'' ''tomorrow''"
    "\<not> includesStr ''12:30 on the 17th'' ''today''"
    "\<not> mentionsWeekday ''12:30 on the 17th''" by code_simp+
  have e: "extractRequestedDate utcPlatform ''the 17th'' 1793683080000 = Some 1794916800000"
    by code_simp
  from time_indicator_rejected_without_relative_words [of "''the 17th at 3''" utcPlatform 1793683080000]
    time_indicator_rejected_without_relative_words [of "''The 17th, 3 PM''" utcPlatform 1793683080000]
    time_indicator_rejected_without_relative_words [of "''12:30 on the 17th''" utcPlatform 1793683080000]
    t s w1 w2 w3 e
  show ?thesis by simp
qed

text \<open>
  Claim C4 as stated fails.  \<open>tomorrow at 3\<close> says a time of day and yields
  a date, the day after Tuesday 2026-11-03 at noon UTC: the relative
  expressions are resolved before the guard.  In \<open>the 17th at 3pm\<close> the
  word \<open>at\<close> is followed by a digit, but the number does not end a word and
  \<open>pm\<close> is no word of its own; in \<open>the 17th, is that 3 hours?\<close> the
  letters \<open>at\<close> are followed by a digit, but they do not start a word; in
  \<open>the 17th, ref A12:30\<close> there is an hour, a colon and two digits, but the
  hour does not start a word.  Each of the three yields the 17th of November.
\<close>

theorem time_indicator_counterexample:
  "saysAtHour (trim (toLowerCase ''tomorrow at 3''))
   \<and> extractRequestedDate utcPlatform ''tomorrow at 3'' 1793683080000 = Some 1793793600000
   \<and> includesStr (trim (toLowerCase ''the 17th at 3pm'')) ''at 3''
   \<and> extractRequestedDate utcPlatform ''the 17th at 3pm'' 1793683080000 = Some 1794916800000
   \<and> includesStr (trim (toLowerCase ''the 17th, is that 3 hours?'')) ''at 3''
   \<and> extractRequestedDate utcPlatform ''the 17th, is that 3 hours?'' 1793683080000
       = Some 1794916800000
   \<and> includesStr (trim (toLowerCase ''the 17th, ref A12:30'')) ''12:30''
   \<and> extractRequestedDate utcPlatform ''the 17th, ref A12:30'' 1793683080000
       = Some 1794916800000"
proof -
  have t: "trim (toLowerCase ''tomorrow at 3'') = ''tomorrow at 3''" by code_simp
  have e: "extractRequestedDate utcPlatform ''tomorrow at 3'' 1793683080000 = Some 1793793600000"
    "includesStr (trim (toLowerCase ''the 17th at 3pm'')) ''at 3''"
    "extractRequestedDate utcPlatform ''the 17th at 3pm'' 1793683080000 = Some 1794916800000"
    "includesStr (trim (toLowerCase ''the 17th, is that 3 hours?'')) ''at 3''"
    "extractRequestedDate utcPlatform ''the 17th, is that 3 hours?'' 1793683080000
       = Some 1794916800000"
    "includesStr (trim (toLowerCase ''the 17th, ref A12:30'')) ''12:30''"
    "extractRequestedDate utcPlatform ''the 17th, ref A12:30'' 1793683080000
       = Some 1794916800000"
    by code_simp+
  from t saysAtHour_tomorrow e show ?thesis by simp
qed













section \<open>Properties of the slot matcher\<close>

lemma oneOrTwoDigits_nondigit: "\<not> isDigit c \<Longrightarrow> oneOrTwoDigits k (c # cs) = None"
  by (cases cs) (simp_all add: oneOrTwoDigits_def)

lemma firstMatch_displayedTime_any:
  "firstMatch displayedTimeAt p xs = firstMatch displayedTimeAt q xs"
  by (cases xs) (simp_all add: displayedTimeAt_def)

lemma firstMatch_displayedTime_skip:
  "list_all (\<lambda>c. \<not> isDigit c) pre \<Longrightarrow>
   firstMatch displayedTimeAt p (pre @ rest) = firstMatch displayedTimeAt q rest"
proof (induction pre arbitrary: p)
  case Nil
  show ?case using firstMatch_displayedTime_any [of p rest q] by simp
next
  case (Cons c pre)
  then have "displayedTimeAt p (c # pre @ rest) = None"
    by (simp add: displayedTimeAt_def oneOrTwoDigits_nondigit)
  with Cons show ?case by simp
qed

lemma colon_not_digit: "\<not> isDigit CHR '':''"
  by (simp add: isDigit_def code_def)

lemma displayedTimeAt_time:
  assumes "isBareNumber h" "length m = 2" "list_all isDigit m" "p = ''AM'' \<or> p = ''PM''"
  shows "displayedTimeAt q (h @ '':'' @ m @ '' '' @ p) = Some (h, m, '' '', p)"
proof -
  from assms(2,3) obtain m1 m2 where m: "m = [m1, m2]" "isDigit m1" "isDigit m2"
    by (cases m; cases "tl m"; cases "tl (tl m)") auto
  have sp: "isSpace CHR '' ''" "\<not> isSpace CHR ''A''" "\<not> isSpace CHR ''P''"
    by (simp_all add: isSpace_def code_def)
  have ci: "startsWithCI ''AM'' ''am''" "startsWithCI ''PM'' ''pm''"
    by code_simp+
  from assms(1) show ?thesis
  proof (cases rule: isBareNumber_cases)
    case (one a)
    with m assms(4) sp ci show ?thesis
      by (auto simp: displayedTimeAt_def oneOrTwoDigits_def clockTail_def colon_not_digit)
  next
    case (two a b)
    with m assms(4) sp ci show ?thesis
      by (auto simp: displayedTimeAt_def oneOrTwoDigits_def clockTail_def)
  qed
qed

lemma displayedTime_label:
  assumes "wellFormedLabelParts w h m p"
  shows "displayedTime (labelText w h m p) = h @ '':'' @ m @ '' '' @ p"
proof -
  from assms have wf: "list_all (\<lambda>c. \<not> isDigit c) w" "isBareNumber h" "length m = 2"
    "list_all isDigit m" "p = ''AM'' \<or> p = ''PM''"
    by (simp_all add: wellFormedLabelParts_def)
  have at: "list_all (\<lambda>c. \<not> isDigit c) (w @ '' at '')"
    using wf(1) by (simp add: isDigit_def code_def)
  let ?time = "h @ '':'' @ m @ '' '' @ p"
  have t: "displayedTimeAt None ?time = Some (h, m, '' '', p)"
    by (rule displayedTimeAt_time [OF wf(2-5)])
  have ne: "?time \<noteq> []" by simp
  have "firstMatch displayedTimeAt None ?time = Some (h, m, '' '', p)"
    using t ne by (cases ?time) simp_all
  then have "search displayedTimeAt ((w @ '' at '') @ ?time) = Some (h, m, '' '', p)"
    unfolding search_def using firstMatch_displayedTime_skip [OF at, of None ?time None] by simp
  then show ?thesis
    by (simp add: displayedTime_def wholeTime_def labelText_def)
qed

lemma time_text_inject:
  assumes "isBareNumber h1" "isBareNumber h2" "length m1 = 2" "length m2 = 2"
  shows "(h1 @ '':'' @ m1 @ '' '' @ p1 = h2 @ '':'' @ m2 @ '' '' @ p2)
           \<longleftrightarrow> (h1 = h2 \<and> m1 = m2 \<and> p1 = p2)"
proof
  assume eq: "h1 @ '':'' @ m1 @ '' '' @ p1 = h2 @ '':'' @ m2 @ '' '' @ p2"
  have len: "length h1 = length h2"
  proof (rule isBareNumber_cases [OF assms(1)]; rule isBareNumber_cases [OF assms(2)])
  qed (use eq in \<open>auto simp: colon_not_digit\<close>)
  with eq have "h1 = h2" "m1 @ '' '' @ p1 = m2 @ '' '' @ p2" by simp_all
  with assms(3,4) show "h1 = h2 \<and> m1 = m2 \<and> p1 = p2" by simp
qed simp

lemma startsWith_self: "startsWith w w"
  by (induction w) simp_all

lemma includesStr_self: "includesStr w w"
  by (cases w) (simp_all add: startsWith_self)


lemma confirmStage_result:
  assumes "isConfirmWord (trim (toLowerCase txt))"
  shows "tryMatchSlot txt [s] = matchedWith s
         \<and> tryMatchSlot txt (s1 # s2 # rest)
             = (if displayedTime (label s1) = displayedTime (label s2)
                then matchedWith s1 else choiceRequired)"
  using assms by (simp add: tryMatchSlot_def confirmStage_def Let_def)

text \<open>
  Claim C6.  For a text that, lower-cased and trimmed, is or contains one of
  the confirmation words (\<open>yes\<close>, \<open>ok\<close>, \<open>sounds good\<close>, ...): with exactly
  one slot offered the matcher selects it.  With two slots offered whose
  labels have the format of the generator, it selects the first slot when
  the two labels display the same time (the same hour, minute and day
  period, whatever the weekdays), and when the displayed times differ it
  selects nothing and returns \<open>requiresChoice = true\<close>.
\<close>

theorem confirmation_word_selection:
  assumes "w \<in> set confirmWords" and "includesStr (trim (toLowerCase txt)) w"
    and "label s1 = labelText d1 h1 m1 p1" and "wellFormedLabelParts d1 h1 m1 p1"
    and "label s2 = labelText d2 h2 m2 p2" and "wellFormedLabelParts d2 h2 m2 p2"
  shows "tryMatchSlot txt [s] = matchedWith s
         \<and> tryMatchSlot txt (s1 # s2 # rest)
             = (if h1 = h2 \<and> m1 = m2 \<and> p1 = p2 then matchedWith s1 else choiceRequired)"
proof -
  have c: "isConfirmWord (trim (toLowerCase txt))"
    using assms(1,2) by (auto simp: isConfirmWord_def list_ex_iff)
  have t1: "displayedTime (label s1) = h1 @ '':'' @ m1 @ '' '' @ p1"
    using assms(3,4) by (simp add: displayedTime_label)
  have t2: "displayedTime (label s2) = h2 @ '':'' @ m2 @ '' '' @ p2"
    using assms(5,6) by (simp add: displayedTime_label)
  have "(displayedTime (label s1) = displayedTime (label s2))
          \<longleftrightarrow> (h1 = h2 \<and> m1 = m2 \<and> p1 = p2)"
    unfolding t1 t2 using assms(4,6)
    by (intro time_text_inject) (simp_all add: wellFormedLabelParts_def)
  with confirmStage_result [OF c, of s s1 s2 rest] show ?thesis by simp
qed

text \<open>
  A witness for C6: \<open>Sounds good\<close> selects the only slot offered; offered
  Saturday 12:00 PM and Sunday 12:00 PM, two labels with the same displayed
  time, it selects the first; offered Saturday 12:00 PM and Saturday
  3:00 PM it requires a choice.  \<open>Saturday\<close> alone is no confirmation.
\<close>

theorem confirmation_word_selection_witness:
  "''sounds good'' \<in> set confirmWords
   \<and> includesStr (trim (toLowerCase ''Sounds good'')) ''sounds good''
   \<and> label saturdayNoon = labelText ''Saturday'' ''12'' ''00'' ''PM''
   \<and> label sundayNoon = labelText ''Sunday'' ''12'' ''00'' ''PM''
   \<and> label saturdayThree = labelText ''Saturday'' ''3'' ''00'' ''PM''
   \<and> wellFormedLabelParts ''Saturday'' ''12'' ''00'' ''PM''
   \<and> wellFormedLabelParts ''Sunday'' ''12'' ''00'' ''PM''
   \<and> wellFormedLabelParts ''Saturday'' ''3'' ''00'' ''PM''
   \<and> tryMatchSlot ''Sounds good'' [saturdayNoon] = matchedWith saturdayNoon
   \<and> tryMatchSlot ''Sounds good'' [saturdayNoon, sundayNoon] = matchedWith saturdayNoon
   \<and> tryMatchSlot ''Sounds good'' [saturdayNoon, saturdayThree] = choiceRequired
   \<and> \<not> isConfirmWord (trim (toLowerCase ''Saturday''))"
proof -
  have w: "''sounds good'' \<in> set confirmWords" by (simp add: confirmWords_def)
  have i: "includesStr (trim (toLowerCase ''Sounds good'')) ''sounds good''" by code_simp
  have l: "label saturdayNoon = labelText ''Saturday'' ''12'' ''00'' ''PM''"
    "label sundayNoon = labelText ''Sunday'' ''12'' ''00'' ''PM''"
    "label saturdayThree = labelText ''Saturday'' ''3'' ''00'' ''PM''"
    by (simp_all add: saturdayNoon_def sundayNoon_def saturdayThree_def labelText_def)
  have f: "wellFormedLabelParts ''Saturday'' ''12'' ''00'' ''PM''"
    "wellFormedLabelParts ''Sunday'' ''12'' ''00'' ''PM''"
    "wellFormedLabelParts ''Saturday'' ''3'' ''00'' ''PM''"
    by code_simp+
  have n: "\<not> isConfirmWord (trim (toLowerCase ''Saturday''))" by code_simp
  from confirmation_word_selection [OF w i l(1) f(1) l(2) f(2), of saturdayNoon "[]"]
    confirmation_word_selection [OF w i l(1) f(1) l(3) f(3), of saturdayNoon "[]"]
    w i l f n
  show ?thesis by simp
qed

text \<open>
  Claim C7 on the code.  The generator, forced to Saturday, returns the noon
  and the three o'clock slot of that day.  The exact label of the second,
  \<open>Saturday at 3:00 PM\<close>, is no confirmation word and no index; the weekday
  stage, which stands before the exact-label stage, finds \<open>saturday\<close> in the
  text and returns the first slot whose label contains it: the noon slot, not
  the slot whose label was submitted.
\<close>

theorem exact_label_of_second_slot_matches_first:
  "generateTwoSlots utcPlatform defaultSearch (Some 1794052800000) 3 (\<lambda>i. tuesdayMorning)
     = Inr [saturdayNoon, saturdayThree]
   \<and> label saturdayThree = ''Saturday at 3:00 PM''
   \<and> tryMatchSlot ''Saturday at 3:00 PM'' [saturdayNoon, saturdayThree] = matchedWith saturdayNoon
   \<and> saturdayNoon \<noteq> saturdayThree"
proof -
  have n: "trim (toLowerCase ''Saturday at 3:00 PM'') = ''saturday at 3:00 pm''" by code_simp
  have c: "confirmStage ''saturday at 3:00 pm'' [saturdayNoon, saturdayThree] = None"
    by code_simp
  have i: "indexStage ''saturday at 3:00 pm'' [saturdayNoon, saturdayThree] = None"
    by code_simp
  have d: "dayNameStage ''saturday at 3:00 pm'' [saturdayNoon, saturdayThree]
             = Some (matchedWith saturdayNoon)"
    by code_simp
  have m: "tryMatchSlot ''Saturday at 3:00 PM'' [saturdayNoon, saturdayThree]
             = matchedWith saturdayNoon"
    by (simp add: tryMatchSlot_def n c i d Let_def)
  have g: "generateTwoSlots utcPlatform defaultSearch (Some 1794052800000) 3 (\<lambda>i. tuesdayMorning)
             = Inr [saturdayNoon, saturdayThree]"
    using forcedSaturday_run by (simp add: defaultSearch_def)
  from m g show ?thesis by (simp add: saturdayNoon_def saturdayThree_def)
qed

end
